theory Spec2Isabelle
  imports Main "HOL-Library.Word" "HOL-Library.Signed_Division"
begin

section \<open>Data model of the QoS container manager\<close>

text \<open>
  The Go source works on \<^verbatim>\<open>int64\<close> throughout: addition, subtraction and
  multiplication wrap around modulo \<open>2 ^ 64\<close>, comparisons are signed, and \<^verbatim>\<open>/\<close>
  truncates towards zero.
\<close>

type_synonym int64 = "64 word"

definition int64_quo :: "int64 \<Rightarrow> int64 \<Rightarrow> int64" where
  \<comment> \<open>Go's \<^verbatim>\<open>a / b\<close> on \<^verbatim>\<open>int64\<close>; the only divisor in the source is the constant 100.\<close>
  "int64_quo a b = word_of_int (sint a sdiv sint b)"

datatype PodQOSClass = PodQOSGuaranteed | PodQOSBurstable | PodQOSBestEffort

datatype ResourceName = ResourceCPU | ResourceMemory | ResourceOther string

text \<open>
  Errors are values. \<open>ExternalError\<close> is an error handed back by a collaborator (the
  cgroup driver or the pod resource helper); the three wrapping constructors are the
  \<^verbatim>\<open>fmt.Errorf\<close> calls of \<^verbatim>\<open>Start\<close>; \<open>NilPointerPanic\<close> is the runtime panic of
  \<^verbatim>\<open>configs[k].ResourceParameters\<close> when key \<open>k\<close> is missing from the map.
\<close>

datatype error =
    ExternalError string
  | RootContainerMissing string
  | FailedToCreate PodQOSClass error
  | FailedToUpdate PodQOSClass error
  | NilPointerPanic

text \<open>
  A \<^verbatim>\<open>resource.Quantity\<close> is read only through \<^verbatim>\<open>Value()\<close> and
  \<^verbatim>\<open>MilliValue()\<close>; a \<^verbatim>\<open>v1.ResourceList\<close> is a map from resource names to quantities.
\<close>

record Quantity =
  Value :: int64
  MilliValue :: int64

type_synonym ResourceList = "ResourceName \<rightharpoonup> Quantity"

text \<open>
  A pod is seen through the two helpers the source calls on it: \<^verbatim>\<open>qos.GetPodQOS(pod)\<close>
  and \<^verbatim>\<open>v1.PodRequestsAndLimits(pod)\<close>, of which only the requests and the error are
  used.
\<close>

record Pod =
  GetPodQOS :: PodQOSClass
  PodRequestsAndLimits :: "error + ResourceList"

text \<open>
  Pointer fields are options: \<open>None\<close> is \<^verbatim>\<open>nil\<close>. Of \<^verbatim>\<open>ResourceConfig\<close> the source
  touches the memory limit and the CPU shares only.
\<close>

record ResourceConfig =
  Memory :: "int64 option"
  CpuShares :: "int64 option"

record CgroupConfig =
  Name :: string
  ResourceParameters :: ResourceConfig

record QOSContainersInfo =
  Guaranteed :: string
  Burstable :: string
  BestEffort :: string

record MemoryStats =
  Usage :: int64

record ResourceStats =
  MemoryStats :: MemoryStats

text \<open>
  The cgroup driver (\<^verbatim>\<open>CgroupManager\<close>) is an external interface. Its state is an
  abstract type \<open>'s\<close>, threaded through the calls that write; \<^verbatim>\<open>Exists\<close> and
  \<^verbatim>\<open>GetResourceStats\<close> read it.
\<close>

record 's CgroupManager =
  Exists :: "'s \<Rightarrow> string \<Rightarrow> bool"
  Create :: "'s \<Rightarrow> CgroupConfig \<Rightarrow> error option \<times> 's"
  Update :: "'s \<Rightarrow> CgroupConfig \<Rightarrow> error option \<times> 's"
  GetResourceStats :: "'s \<Rightarrow> string \<Rightarrow> error + ResourceStats"

text \<open>
  The manager. \<open>activePods\<close> and \<open>getNodeAllocatable\<close> hold the answers that the two
  accessor closures give during one pass (the same answer at each call within the
  pass). The cgroup driver is passed to the functions next to the manager; the fields
  \<^verbatim>\<open>nodeInfo\<close> and \<^verbatim>\<open>subsystems\<close>, which no method reads, and the mutex are left out.
\<close>

record qosContainerManagerImpl =
  qosContainersInfo :: QOSContainersInfo
  activePods :: "Pod list"
  getNodeAllocatable :: ResourceList
  cgroupRoot :: string
  qosReserved :: "ResourceName \<rightharpoonup> int64"

type_synonym qosConfigs = "PodQOSClass \<rightharpoonup> CgroupConfig"

section \<open>The allocation calculator: memory\<close>

definition lookup0 :: "(PodQOSClass \<rightharpoonup> int64) \<Rightarrow> PodQOSClass \<Rightarrow> int64" where
  \<comment> \<open>Reading a Go map of \<^verbatim>\<open>int64\<close>: a missing key reads as 0.\<close>
  "lookup0 m k = (case m k of None \<Rightarrow> 0 | Some v \<Rightarrow> v)"

fun sumMemoryRequests ::
  "Pod list \<Rightarrow> (PodQOSClass \<rightharpoonup> int64) \<Rightarrow> error + (PodQOSClass \<rightharpoonup> int64)" where
  "sumMemoryRequests [] qosMemoryRequests = Inr qosMemoryRequests"
| "sumMemoryRequests (pod # pods) qosMemoryRequests =
     (let qosClass = GetPodQOS pod in
      if qosClass = PodQOSBestEffort then sumMemoryRequests pods qosMemoryRequests
      else
        (case PodRequestsAndLimits pod of
           Inl err \<Rightarrow> Inl err
         | Inr req \<Rightarrow>
             (let podMemoryRequest =
                    (case req ResourceMemory of
                       Some request \<Rightarrow> 0 + Value request
                     | None \<Rightarrow> 0)
              in sumMemoryRequests pods
                   (qosMemoryRequests
                      (qosClass \<mapsto> lookup0 qosMemoryRequests qosClass + podMemoryRequest)))))"

definition burstableLimit :: "int64 \<Rightarrow> int64 \<Rightarrow> int64 \<Rightarrow> int64" where
  "burstableLimit allocatable guaranteedRequests percentReserve =
     allocatable - int64_quo (guaranteedRequests * percentReserve) 100"

definition bestEffortLimit :: "int64 \<Rightarrow> int64 \<Rightarrow> int64 \<Rightarrow> int64" where
  "bestEffortLimit burstable burstableRequests percentReserve =
     burstable - int64_quo (burstableRequests * percentReserve) 100"

definition setMemory :: "PodQOSClass \<Rightarrow> int64 \<Rightarrow> qosConfigs \<Rightarrow> error + qosConfigs" where
  \<comment> \<open>\<^verbatim>\<open>configs[k].ResourceParameters.Memory = &v\<close>\<close>
  "setMemory k v configs =
     (case configs k of
        None \<Rightarrow> Inl NilPointerPanic
      | Some c \<Rightarrow>
          Inr (configs (k \<mapsto> c\<lparr>ResourceParameters := (ResourceParameters c)\<lparr>Memory := Some v\<rparr>\<rparr>)))"

definition setMemoryReserve ::
  "qosContainerManagerImpl \<Rightarrow> qosConfigs \<Rightarrow> int64 \<Rightarrow> error + qosConfigs" where
  "setMemoryReserve m configs percentReserve =
     (case sumMemoryRequests (activePods m)
             [PodQOSGuaranteed \<mapsto> 0, PodQOSBurstable \<mapsto> 0] of
        Inl err \<Rightarrow> Inr configs
      | Inr qosMemoryRequests \<Rightarrow>
          (case getNodeAllocatable m ResourceMemory of
             None \<Rightarrow> Inr configs
           | Some allocatableResource \<Rightarrow>
               (let allocatable = Value allocatableResource in
                if allocatable = 0 then Inr configs
                else
                  (let burstable =
                         burstableLimit allocatable
                           (lookup0 qosMemoryRequests PodQOSGuaranteed) percentReserve;
                       bestEffort =
                         bestEffortLimit burstable
                           (lookup0 qosMemoryRequests PodQOSBurstable) percentReserve
                   in case setMemory PodQOSBurstable burstable configs of
                        Inl err \<Rightarrow> Inl err
                      | Inr configs' \<Rightarrow> setMemory PodQOSBestEffort bestEffort configs'))))"

section \<open>The allocation calculator: CPU shares\<close>

text \<open>
  \<^verbatim>\<open>MinShares\<close> and \<^verbatim>\<open>MilliCPUToShares\<close> are declared in another file of package
  \<^verbatim>\<open>cm\<close>, and \<^verbatim>\<open>path.Join\<close> in the standard library; the functions below take them as
  parameters.
\<close>

record cmHelpers =
  MinShares :: int64
  MilliCPUToShares :: "int64 \<Rightarrow> int64"
  pathJoin :: "string \<Rightarrow> string \<Rightarrow> string"

fun sumBurstableCPURequest :: "Pod list \<Rightarrow> int64 \<Rightarrow> error + int64" where
  "sumBurstableCPURequest [] burstablePodCPURequest = Inr burstablePodCPURequest"
| "sumBurstableCPURequest (pod # pods) burstablePodCPURequest =
     (let qosClass = GetPodQOS pod in
      if qosClass \<noteq> PodQOSBurstable then sumBurstableCPURequest pods burstablePodCPURequest
      else
        (case PodRequestsAndLimits pod of
           Inl err \<Rightarrow> Inl err
         | Inr req \<Rightarrow>
             (case req ResourceCPU of
                Some request \<Rightarrow>
                  sumBurstableCPURequest pods (burstablePodCPURequest + MilliValue request)
              | None \<Rightarrow> sumBurstableCPURequest pods burstablePodCPURequest)))"

definition setCpuShares :: "PodQOSClass \<Rightarrow> int64 \<Rightarrow> qosConfigs \<Rightarrow> error + qosConfigs" where
  \<comment> \<open>\<^verbatim>\<open>configs[k].ResourceParameters.CpuShares = &v\<close>\<close>
  "setCpuShares k v configs =
     (case configs k of
        None \<Rightarrow> Inl NilPointerPanic
      | Some c \<Rightarrow>
          Inr (configs (k \<mapsto> c\<lparr>ResourceParameters := (ResourceParameters c)\<lparr>CpuShares := Some v\<rparr>\<rparr>)))"

definition setCPUCgroupConfig ::
  "cmHelpers \<Rightarrow> qosContainerManagerImpl \<Rightarrow> qosConfigs \<Rightarrow> error + qosConfigs" where
  "setCPUCgroupConfig h m configs =
     (case sumBurstableCPURequest (activePods m) 0 of
        Inl err \<Rightarrow> Inl err
      | Inr burstablePodCPURequest \<Rightarrow>
          (let bestEffortCPUShares = MinShares h in
           case setCpuShares PodQOSBestEffort bestEffortCPUShares configs of
             Inl err \<Rightarrow> Inl err
           | Inr configs' \<Rightarrow>
               (let burstableCPUShares = MilliCPUToShares h burstablePodCPURequest;
                    burstableCPUShares' =
                      (if burstableCPUShares <s MinShares h then MinShares h
                       else burstableCPUShares)
                in setCpuShares PodQOSBurstable burstableCPUShares' configs')))"

section \<open>The tier reconciler\<close>

text \<open>
  Go leaves the iteration order of a map unspecified. Every \<^verbatim>\<open>range\<close> over the
  configs map takes the order as a list of keys \<open>ks\<close>; keys that are not in the map are
  never produced by \<^verbatim>\<open>range\<close> and are skipped.
\<close>

fun retrySetMemoryReserve ::
  "'s CgroupManager \<Rightarrow> 's \<Rightarrow> PodQOSClass list \<Rightarrow> qosConfigs \<Rightarrow> int64 \<Rightarrow> qosConfigs" where
  "retrySetMemoryReserve cm s [] configs percentReserve = configs"
| "retrySetMemoryReserve cm s (qos # ks) configs percentReserve =
     (case configs qos of
        None \<Rightarrow> retrySetMemoryReserve cm s ks configs percentReserve
      | Some config \<Rightarrow>
          (case GetResourceStats cm s (Name config) of
             Inl err \<Rightarrow> configs
           | Inr stats \<Rightarrow>
               (let usage = Usage (MemoryStats stats) in
                case Memory (ResourceParameters config) of
                  None \<Rightarrow> retrySetMemoryReserve cm s ks configs percentReserve
                | Some target \<Rightarrow>
                    if target <s usage then
                      retrySetMemoryReserve cm s ks
                        (configs (qos \<mapsto>
                           config\<lparr>ResourceParameters :=
                             (ResourceParameters config)\<lparr>Memory := Some usage\<rparr>\<rparr>))
                        percentReserve
                    else retrySetMemoryReserve cm s ks configs percentReserve)))"

definition rangeValues :: "PodQOSClass list \<Rightarrow> qosConfigs \<Rightarrow> CgroupConfig list" where
  "rangeValues ks configs = List.map_filter configs ks"

fun updatePhase1 :: "'s CgroupManager \<Rightarrow> CgroupConfig list \<Rightarrow> bool \<Rightarrow> 's \<Rightarrow> bool \<times> 's" where
  "updatePhase1 cm [] updateSuccess s = (updateSuccess, s)"
| "updatePhase1 cm (config # rest) updateSuccess s =
     (case Update cm s config of
        (Some err, s') \<Rightarrow> updatePhase1 cm rest False s'
      | (None, s') \<Rightarrow> updatePhase1 cm rest updateSuccess s')"

fun updatePhase2 :: "'s CgroupManager \<Rightarrow> CgroupConfig list \<Rightarrow> 's \<Rightarrow> error option \<times> 's" where
  "updatePhase2 cm [] s = (None, s)"
| "updatePhase2 cm (config # rest) s =
     (case Update cm s config of
        (Some err, s') \<Rightarrow> (Some err, s')
      | (None, s') \<Rightarrow> updatePhase2 cm rest s')"

definition freshQosConfigs :: "qosContainerManagerImpl \<Rightarrow> qosConfigs" where
  "freshQosConfigs m =
     [PodQOSBurstable \<mapsto>
        \<lparr>Name = Burstable (qosContainersInfo m),
         ResourceParameters = \<lparr>Memory = None, CpuShares = None\<rparr>\<rparr>,
      PodQOSBestEffort \<mapsto>
        \<lparr>Name = BestEffort (qosContainersInfo m),
         ResourceParameters = \<lparr>Memory = None, CpuShares = None\<rparr>\<rparr>]"

definition reserveAll :: "qosContainerManagerImpl \<Rightarrow> qosConfigs \<Rightarrow> error + qosConfigs" where
  \<comment> \<open>The first \<^verbatim>\<open>range m.qosReserved\<close>: a Go map has one entry per key and the switch
      acts on \<^verbatim>\<open>v1.ResourceMemory\<close> only, so the body runs at most once.\<close>
  "reserveAll m configs =
     (case qosReserved m ResourceMemory of
        None \<Rightarrow> Inr configs
      | Some percentReserve \<Rightarrow> setMemoryReserve m configs percentReserve)"

definition retryAll ::
  "qosContainerManagerImpl \<Rightarrow> 's CgroupManager \<Rightarrow> 's \<Rightarrow> PodQOSClass list \<Rightarrow> qosConfigs
     \<Rightarrow> qosConfigs" where
  \<comment> \<open>The second \<^verbatim>\<open>range m.qosReserved\<close>.\<close>
  "retryAll m cm s ks configs =
     (case qosReserved m ResourceMemory of
        None \<Rightarrow> configs
      | Some percentReserve \<Rightarrow> retrySetMemoryReserve cm s ks configs percentReserve)"

text \<open>
  One pass. \<open>ks1\<close>, \<open>ks2\<close> and \<open>ks3\<close> are the iteration orders of the three loops over
  the configs map (first update, adjustment, second update). The mutex is not part of
  this sequential model.
\<close>

definition UpdateCgroups ::
  "cmHelpers \<Rightarrow> qosContainerManagerImpl \<Rightarrow> 's CgroupManager
     \<Rightarrow> PodQOSClass list \<Rightarrow> PodQOSClass list \<Rightarrow> PodQOSClass list \<Rightarrow> 's
     \<Rightarrow> error option \<times> 's" where
  "UpdateCgroups h m cm ks1 ks2 ks3 s =
     (case setCPUCgroupConfig h m (freshQosConfigs m) of
        Inl err \<Rightarrow> (Some err, s)
      | Inr qosConfigs \<Rightarrow>
          (case reserveAll m qosConfigs of
             Inl err \<Rightarrow> (Some err, s)
           | Inr qosConfigs' \<Rightarrow>
               (case updatePhase1 cm (rangeValues ks1 qosConfigs') True s of
                  (updateSuccess, s1) \<Rightarrow>
                    if updateSuccess then (None, s1)
                    else updatePhase2 cm
                           (rangeValues ks3 (retryAll m cm s1 ks2 qosConfigs')) s1)))"

section \<open>Bootstrap\<close>

fun qosClassString :: "PodQOSClass \<Rightarrow> string" where
  "qosClassString PodQOSGuaranteed = ''Guaranteed''"
| "qosClassString PodQOSBurstable = ''Burstable''"
| "qosClassString PodQOSBestEffort = ''BestEffort''"

definition containerConfigFor :: "cmHelpers \<Rightarrow> string \<Rightarrow> PodQOSClass \<Rightarrow> CgroupConfig" where
  \<comment> \<open>The \<^verbatim>\<open>containerConfig\<close> built in the body of the loop of \<^verbatim>\<open>Start\<close>.\<close>
  "containerConfigFor h rootContainer qosClass =
     (let absoluteContainerName = pathJoin h rootContainer (qosClassString qosClass);
          resourceParameters = \<lparr>Memory = None, CpuShares = None\<rparr>;
          resourceParameters' =
            (if qosClass = PodQOSBestEffort
             then resourceParameters\<lparr>CpuShares := Some (MinShares h)\<rparr>
             else resourceParameters)
      in \<lparr>Name = absoluteContainerName, ResourceParameters = resourceParameters'\<rparr>)"

fun createContainers ::
  "cmHelpers \<Rightarrow> 's CgroupManager \<Rightarrow> string \<Rightarrow> PodQOSClass list \<Rightarrow> 's \<Rightarrow> error option \<times> 's" where
  "createContainers h cm rootContainer [] s = (None, s)"
| "createContainers h cm rootContainer (qosClass # rest) s =
     (let containerConfig = containerConfigFor h rootContainer qosClass in
      if \<not> Exists cm s (Name containerConfig) then
        (case Create cm s containerConfig of
           (Some err, s') \<Rightarrow> (Some (FailedToCreate qosClass err), s')
         | (None, s') \<Rightarrow> createContainers h cm rootContainer rest s')
      else
        (case Update cm s containerConfig of
           (Some err, s') \<Rightarrow> (Some (FailedToUpdate qosClass err), s')
         | (None, s') \<Rightarrow> createContainers h cm rootContainer rest s'))"

text \<open>
  \<^verbatim>\<open>Start\<close> returns its error, the manager and the driver state. The background
  goroutine it launches at the end is not part of the model: the return value does not
  depend on it.
\<close>

definition Start ::
  "cmHelpers \<Rightarrow> qosContainerManagerImpl \<Rightarrow> 's CgroupManager \<Rightarrow> ResourceList \<Rightarrow> Pod list \<Rightarrow> 's
     \<Rightarrow> error option \<times> qosContainerManagerImpl \<times> 's" where
  "Start h m cm getNodeAllocatable' activePods' s =
     (let rootContainer = cgroupRoot m in
      if \<not> Exists cm s rootContainer then (Some (RootContainerMissing rootContainer), m, s)
      else
        (case createContainers h cm rootContainer [PodQOSBurstable, PodQOSBestEffort] s of
           (Some err, s') \<Rightarrow> (Some err, m, s')
         | (None, s') \<Rightarrow>
             (None,
              m\<lparr>qosContainersInfo :=
                   \<lparr>Guaranteed = rootContainer,
                    Burstable = pathJoin h rootContainer (qosClassString PodQOSBurstable),
                    BestEffort = pathJoin h rootContainer (qosClassString PodQOSBestEffort)\<rparr>,
                 getNodeAllocatable := getNodeAllocatable',
                 activePods := activePods'\<rparr>,
              s')))"

section \<open>The admission plugin initializer\<close>

text \<open>
  A plugin is seen through the method set of its dynamic type, which is what the type
  assertions of \<^verbatim>\<open>Initialize\<close> test. Each of the three interfaces asks for its setter
  and for \<^verbatim>\<open>Validate\<close> (the embedded \<^verbatim>\<open>admission.Validator\<close>). The effect of
  \<^verbatim>\<open>Initialize\<close> on the plugin is the sequence of setter calls it makes.
\<close>

record pluginMethods =
  hasSetInternalClientSet :: bool
  hasSetInformerFactory :: bool
  hasSetAuthorizer :: bool
  hasValidate :: bool

definition WantsInternalClientSet :: "pluginMethods \<Rightarrow> bool" where
  "WantsInternalClientSet plugin \<longleftrightarrow> hasSetInternalClientSet plugin \<and> hasValidate plugin"

definition WantsInformerFactory :: "pluginMethods \<Rightarrow> bool" where
  "WantsInformerFactory plugin \<longleftrightarrow> hasSetInformerFactory plugin \<and> hasValidate plugin"

definition WantsAuthorizer :: "pluginMethods \<Rightarrow> bool" where
  "WantsAuthorizer plugin \<longleftrightarrow> hasSetAuthorizer plugin \<and> hasValidate plugin"

record ('c, 'f, 'a) pluginInitializer =
  internalClient :: 'c
  informers :: 'f
  authorizer :: 'a

datatype ('c, 'f, 'a) setterCall =
    SetInternalClientSet 'c
  | SetInformerFactory 'f
  | SetAuthorizer 'a

definition NewPluginInitializer :: "'c \<Rightarrow> 'f \<Rightarrow> 'a \<Rightarrow> ('c, 'f, 'a) pluginInitializer" where
  "NewPluginInitializer internalClient' sharedInformers authz =
     \<lparr>internalClient = internalClient', informers = sharedInformers, authorizer = authz\<rparr>"

definition Initialize ::
  "('c, 'f, 'a) pluginInitializer \<Rightarrow> pluginMethods \<Rightarrow> ('c, 'f, 'a) setterCall list" where
  "Initialize i plugin =
     (if WantsInternalClientSet plugin then [SetInternalClientSet (internalClient i)] else [])
     @ (if WantsInformerFactory plugin then [SetInformerFactory (informers i)] else [])
     @ (if WantsAuthorizer plugin then [SetAuthorizer (authorizer i)] else [])"

section \<open>Notions used in the statements\<close>

subsection \<open>Requests of the active pods\<close>

text \<open>
  The request of a pod for a resource is the quantity under that name in its requests,
  and 0 when it has none. The sums are \<^verbatim>\<open>int64\<close> sums over the pods of one tier.
\<close>

definition podMemoryRequest :: "Pod \<Rightarrow> int64" where
  "podMemoryRequest pod =
     (case PodRequestsAndLimits pod of
        Inl err \<Rightarrow> 0
      | Inr req \<Rightarrow> (case req ResourceMemory of None \<Rightarrow> 0 | Some request \<Rightarrow> Value request))"

definition tierMemoryRequests :: "PodQOSClass \<Rightarrow> Pod list \<Rightarrow> int64" where
  "tierMemoryRequests qosClass pods =
     sum_list (map podMemoryRequest (filter (\<lambda>pod. GetPodQOS pod = qosClass) pods))"

definition podCPURequest :: "Pod \<Rightarrow> int64" where
  "podCPURequest pod =
     (case PodRequestsAndLimits pod of
        Inl err \<Rightarrow> 0
      | Inr req \<Rightarrow> (case req ResourceCPU of None \<Rightarrow> 0 | Some request \<Rightarrow> MilliValue request))"

definition burstableCPURequests :: "Pod list \<Rightarrow> int64" where
  "burstableCPURequests pods =
     sum_list (map podCPURequest (filter (\<lambda>pod. GetPodQOS pod = PodQOSBurstable) pods))"

definition requestsDeterminable :: "Pod \<Rightarrow> bool" where
  "requestsDeterminable pod = (case PodRequestsAndLimits pod of Inl err \<Rightarrow> False | Inr req \<Rightarrow> True)"

definition memoryRequestsDeterminable :: "Pod list \<Rightarrow> bool" where
  "memoryRequestsDeterminable pods =
     list_all (\<lambda>pod. GetPodQOS pod = PodQOSBestEffort \<or> requestsDeterminable pod) pods"

definition cpuRequestsDeterminable :: "Pod list \<Rightarrow> bool" where
  "cpuRequestsDeterminable pods =
     list_all (\<lambda>pod. GetPodQOS pod = PodQOSBurstable \<longrightarrow> requestsDeterminable pod) pods"

definition firstBurstableError :: "Pod list \<Rightarrow> error option" where
  "firstBurstableError pods =
     (case find (\<lambda>pod. GetPodQOS pod = PodQOSBurstable \<and> \<not> requestsDeterminable pod) pods of
        None \<Rightarrow> None
      | Some pod \<Rightarrow> (case PodRequestsAndLimits pod of Inl err \<Rightarrow> Some err | Inr req \<Rightarrow> None))"

definition allocatableMemoryMissing :: "qosContainerManagerImpl \<Rightarrow> bool" where
  "allocatableMemoryMissing m =
     (case getNodeAllocatable m ResourceMemory of
        None \<Rightarrow> True
      | Some allocatableResource \<Rightarrow> Value allocatableResource = 0)"

subsection \<open>Reading the configs\<close>

definition memoryLimit :: "qosConfigs \<Rightarrow> PodQOSClass \<Rightarrow> int64 option" where
  "memoryLimit configs qosClass =
     (case configs qosClass of None \<Rightarrow> None | Some c \<Rightarrow> Memory (ResourceParameters c))"

definition cpuShares :: "qosConfigs \<Rightarrow> PodQOSClass \<Rightarrow> int64 option" where
  "cpuShares configs qosClass =
     (case configs qosClass of None \<Rightarrow> None | Some c \<Rightarrow> CpuShares (ResourceParameters c))"

definition noMemoryTargets :: "qosConfigs \<Rightarrow> bool" where
  "noMemoryTargets configs \<longleftrightarrow>
     memoryLimit configs PodQOSGuaranteed = None
   \<and> memoryLimit configs PodQOSBurstable = None
   \<and> memoryLimit configs PodQOSBestEffort = None"

definition sameNames :: "qosConfigs \<Rightarrow> qosConfigs \<Rightarrow> bool" where
  "sameNames c c' \<longleftrightarrow>
     map_option Name (c' PodQOSGuaranteed) = map_option Name (c PodQOSGuaranteed)
   \<and> map_option Name (c' PodQOSBurstable) = map_option Name (c PodQOSBurstable)
   \<and> map_option Name (c' PodQOSBestEffort) = map_option Name (c PodQOSBestEffort)"

definition truncatedQuotient :: "int \<Rightarrow> int \<Rightarrow> int" where
  "truncatedQuotient a b = sgn a * sgn b * (\<bar>a\<bar> div \<bar>b\<bar>)"

definition int64_max :: "int64 \<Rightarrow> int64 \<Rightarrow> int64" where
  "int64_max a b = (if sint a \<le> sint b then b else a)"

subsection \<open>The adjustment loop and the second phase\<close>

text \<open>
  \<open>observedUsage cm s ks configs q\<close> is the memory usage that the adjustment loop reads
  back for tier \<open>q\<close>: the loop reaches \<open>q\<close> only if the statistics of every tier before
  it in the iteration order could be read. \<open>adjusted configs k config u\<close> is the configs
  map after one iteration of the loop at tier \<open>k\<close>, when the usage \<open>u\<close> was read.
  \<open>phase2Entry h m cm ks1 s\<close> is the configs and the driver state with which a pass
  enters its second phase, and \<open>None\<close> for a pass that ends before it.
\<close>

fun observedUsage ::
  "'s CgroupManager \<Rightarrow> 's \<Rightarrow> PodQOSClass list \<Rightarrow> qosConfigs \<Rightarrow> PodQOSClass \<Rightarrow> int64 option" where
  "observedUsage cm s [] configs q = None"
| "observedUsage cm s (k # ks) configs q =
     (case configs k of
        None \<Rightarrow> observedUsage cm s ks configs q
      | Some config \<Rightarrow>
          (case GetResourceStats cm s (Name config) of
             Inl err \<Rightarrow> None
           | Inr stats \<Rightarrow>
               if k = q then Some (Usage (MemoryStats stats))
               else observedUsage cm s ks configs q))"

definition statsReadable :: "'s CgroupManager \<Rightarrow> 's \<Rightarrow> qosConfigs \<Rightarrow> PodQOSClass \<Rightarrow> bool" where
  "statsReadable cm s configs k =
     (case configs k of
        None \<Rightarrow> True
      | Some config \<Rightarrow>
          (case GetResourceStats cm s (Name config) of Inl err \<Rightarrow> False | Inr stats \<Rightarrow> True))"

definition statsFailAt :: "'s CgroupManager \<Rightarrow> 's \<Rightarrow> qosConfigs \<Rightarrow> PodQOSClass \<Rightarrow> bool" where
  "statsFailAt cm s configs k =
     (case configs k of
        None \<Rightarrow> False
      | Some config \<Rightarrow>
          (case GetResourceStats cm s (Name config) of Inl err \<Rightarrow> True | Inr stats \<Rightarrow> False))"

definition adjusted :: "qosConfigs \<Rightarrow> PodQOSClass \<Rightarrow> CgroupConfig \<Rightarrow> int64 \<Rightarrow> qosConfigs" where
  "adjusted configs k config u =
     (case Memory (ResourceParameters config) of
        None \<Rightarrow> configs
      | Some target \<Rightarrow>
          if target <s u
          then configs (k \<mapsto> config\<lparr>ResourceParameters :=
                                   (ResourceParameters config)\<lparr>Memory := Some u\<rparr>\<rparr>)
          else configs)"

definition phase2Entry ::
  "cmHelpers \<Rightarrow> qosContainerManagerImpl \<Rightarrow> 's CgroupManager \<Rightarrow> PodQOSClass list \<Rightarrow> 's
     \<Rightarrow> (qosConfigs \<times> 's) option" where
  "phase2Entry h m cm ks1 s =
     (case setCPUCgroupConfig h m (freshQosConfigs m) of
        Inl err \<Rightarrow> None
      | Inr qosConfigs \<Rightarrow>
          (case reserveAll m qosConfigs of
             Inl err \<Rightarrow> None
           | Inr qosConfigs' \<Rightarrow>
               (case updatePhase1 cm (rangeValues ks1 qosConfigs') True s of
                  (updateSuccess, s1) \<Rightarrow>
                    if updateSuccess then None else Some (qosConfigs', s1))))"

subsection \<open>Bootstrap\<close>

text \<open>
  \<open>baselineConfig\<close> is the config a tier starts with, \<open>ensureTier\<close> creates the cgroup
  or updates it, \<open>tierError\<close> is the error \<^verbatim>\<open>Start\<close> makes of a failure of either, and
  \<open>startedManager\<close> is the manager after a successful \<^verbatim>\<open>Start\<close>.
\<close>

definition baselineConfig :: "cmHelpers \<Rightarrow> string \<Rightarrow> PodQOSClass \<Rightarrow> CgroupConfig" where
  "baselineConfig h rootContainer qosClass =
     \<lparr>Name = pathJoin h rootContainer (qosClassString qosClass),
      ResourceParameters =
        \<lparr>Memory = None,
         CpuShares = (if qosClass = PodQOSBestEffort then Some (MinShares h) else None)\<rparr>\<rparr>"

definition ensureTier :: "'s CgroupManager \<Rightarrow> 's \<Rightarrow> CgroupConfig \<Rightarrow> error option \<times> 's" where
  "ensureTier cm s config =
     (if Exists cm s (Name config) then Update cm s config else Create cm s config)"

definition tierError :: "'s CgroupManager \<Rightarrow> 's \<Rightarrow> CgroupConfig \<Rightarrow> PodQOSClass \<Rightarrow> error \<Rightarrow> error" where
  "tierError cm s config qosClass err =
     (if Exists cm s (Name config) then FailedToUpdate qosClass err
      else FailedToCreate qosClass err)"

definition startedManager ::
  "cmHelpers \<Rightarrow> qosContainerManagerImpl \<Rightarrow> ResourceList \<Rightarrow> Pod list \<Rightarrow> qosContainerManagerImpl" where
  "startedManager h m allocatable pods =
     m\<lparr>qosContainersInfo :=
          \<lparr>Guaranteed = cgroupRoot m,
           Burstable = pathJoin h (cgroupRoot m) ''Burstable'',
           BestEffort = pathJoin h (cgroupRoot m) ''BestEffort''\<rparr>,
       getNodeAllocatable := allocatable,
       activePods := pods\<rparr>"

section \<open>Sample instances\<close>

text \<open>
  Concrete inputs for the evaluations. \<open>sampleHelpers\<close> has a minimum of 2 shares, as
  the comment in \<^verbatim>\<open>setCPUCgroupConfig\<close> says, and converts 1000 milli-CPU to 1024
  shares. \<open>sampleCgroupManager\<close> keeps, for every cgroup path, the memory usage it
  reports (\<open>None\<close> when its statistics cannot be read) and the last config written; it
  refuses a memory limit below the usage.
\<close>

definition sampleHelpers :: cmHelpers where
  "sampleHelpers =
     \<lparr>MinShares = 2,
      MilliCPUToShares = (\<lambda>milliCPU. int64_quo (milliCPU * 1024) 1000),
      pathJoin = (\<lambda>dir name. if dir = ''/'' then dir @ name else dir @ ''/'' @ name)\<rparr>"

record sampleCgroup =
  usage :: "int64 option"
  written :: ResourceConfig

type_synonym sampleState = "(string \<times> sampleCgroup) list"

definition sampleWrite :: "sampleState \<Rightarrow> CgroupConfig \<Rightarrow> sampleState" where
  "sampleWrite s config =
     map (\<lambda>(name, g). if name = Name config
                        then (name, g\<lparr>written := ResourceParameters config\<rparr>)
                        else (name, g)) s"

definition sampleRefuses :: "sampleCgroup \<Rightarrow> CgroupConfig \<Rightarrow> bool" where
  "sampleRefuses g config =
     (case (usage g, Memory (ResourceParameters config)) of
        (Some u, Some limit) \<Rightarrow> limit <s u
      | _ \<Rightarrow> False)"

definition sampleCgroupManager :: "sampleState CgroupManager" where
  "sampleCgroupManager =
     \<lparr>Exists = (\<lambda>s name. map_of s name \<noteq> None),
      Create = (\<lambda>s config.
        (None, s @ [(Name config, \<lparr>usage = Some 0, written = ResourceParameters config\<rparr>)])),
      Update = (\<lambda>s config.
        case map_of s (Name config) of
          None \<Rightarrow> (Some (ExternalError ''no such cgroup''), s)
        | Some g \<Rightarrow>
            if sampleRefuses g config then (Some (ExternalError ''device or resource busy''), s)
            else (None, sampleWrite s config)),
      GetResourceStats = (\<lambda>s name.
        case map_of s name of
          None \<Rightarrow> Inl (ExternalError ''no such cgroup'')
        | Some g \<Rightarrow>
            (case usage g of
               None \<Rightarrow> Inl (ExternalError ''no statistics'')
             | Some u \<Rightarrow> Inr \<lparr>MemoryStats = \<lparr>Usage = u\<rparr>\<rparr>))\<rparr>"

definition readOnlyCgroupManager :: "sampleState CgroupManager" where
  \<comment> \<open>The sample driver on a read-only hierarchy: no cgroup can be created.\<close>
  "readOnlyCgroupManager =
     sampleCgroupManager
       \<lparr>Create := (\<lambda>s config. (Some (ExternalError ''read-only file system''), s))\<rparr>"

text \<open>
  Managers: \<open>scenarioB\<close> has one Guaranteed pod requesting 1 GiB, 10 GiB allocatable
  and 50 percent reserved; the others vary its pods or its allocatable memory.
\<close>

definition scenarioB :: qosContainerManagerImpl where
  "scenarioB =
     \<lparr>qosContainersInfo =
        \<lparr>Guaranteed = ''/'', Burstable = ''/Burstable'', BestEffort = ''/BestEffort''\<rparr>,
      activePods =
        [\<lparr>GetPodQOS = PodQOSGuaranteed,
          PodRequestsAndLimits =
            Inr [ResourceMemory \<mapsto> \<lparr>Value = 1073741824, MilliValue = 1073741824000\<rparr>]\<rparr>],
      getNodeAllocatable =
        [ResourceMemory \<mapsto> \<lparr>Value = 10737418240, MilliValue = 10737418240000\<rparr>],
      cgroupRoot = ''/'',
      qosReserved = [ResourceMemory \<mapsto> 50]\<rparr>"

definition cpuManager :: qosContainerManagerImpl where
  "cpuManager =
     scenarioB\<lparr>activePods :=
       [\<lparr>GetPodQOS = PodQOSBurstable,
         PodRequestsAndLimits = Inr [ResourceCPU \<mapsto> \<lparr>Value = 1, MilliValue = 500\<rparr>]\<rparr>,
        \<lparr>GetPodQOS = PodQOSGuaranteed,
         PodRequestsAndLimits = Inr [ResourceCPU \<mapsto> \<lparr>Value = 2, MilliValue = 2000\<rparr>]\<rparr>,
        \<lparr>GetPodQOS = PodQOSBestEffort, PodRequestsAndLimits = Inr Map.empty\<rparr>]\<rparr>"

definition undeterminablePod :: Pod where
  "undeterminablePod =
     \<lparr>GetPodQOS = PodQOSBurstable,
      PodRequestsAndLimits = Inl (ExternalError ''requests undeterminable'')\<rparr>"

definition cpuFailingManager :: qosContainerManagerImpl where
  "cpuFailingManager = scenarioB\<lparr>activePods := activePods scenarioB @ [undeterminablePod]\<rparr>"

definition standaloneManager :: qosContainerManagerImpl where
  "standaloneManager =
     scenarioB\<lparr>getNodeAllocatable := [ResourceMemory \<mapsto> \<lparr>Value = 0, MilliValue = 0\<rparr>]\<rparr>"

definition pressureManager :: qosContainerManagerImpl where
  "pressureManager =
     scenarioB\<lparr>activePods :=
                 [\<lparr>GetPodQOS = PodQOSGuaranteed,
                   PodRequestsAndLimits =
                     Inr [ResourceMemory \<mapsto> \<lparr>Value = 1800, MilliValue = 1800000\<rparr>]\<rparr>],
               getNodeAllocatable :=
                 [ResourceMemory \<mapsto> \<lparr>Value = 1000, MilliValue = 1000000\<rparr>]\<rparr>"

text \<open>Driver states and configs.\<close>

definition onlyRoot :: sampleState where
  "onlyRoot = [(''/'', \<lparr>usage = Some 0, written = \<lparr>Memory = None, CpuShares = None\<rparr>\<rparr>)]"

definition sampleTiers :: sampleState where
  "sampleTiers =
     [(''/'', \<lparr>usage = Some 0, written = \<lparr>Memory = None, CpuShares = None\<rparr>\<rparr>),
      (''/Burstable'', \<lparr>usage = Some 0, written = \<lparr>Memory = None, CpuShares = None\<rparr>\<rparr>),
      (''/BestEffort'', \<lparr>usage = Some 0, written = \<lparr>Memory = None, CpuShares = Some 2\<rparr>\<rparr>)]"

definition pressuredTiers :: sampleState where
  "pressuredTiers =
     [(''/'', \<lparr>usage = Some 510, written = \<lparr>Memory = None, CpuShares = None\<rparr>\<rparr>),
      (''/Burstable'', \<lparr>usage = Some 500, written = \<lparr>Memory = None, CpuShares = None\<rparr>\<rparr>),
      (''/BestEffort'', \<lparr>usage = Some 10, written = \<lparr>Memory = None, CpuShares = Some 2\<rparr>\<rparr>)]"

definition unreadableTiers :: sampleState where
  "unreadableTiers =
     [(''/'', \<lparr>usage = Some 510, written = \<lparr>Memory = None, CpuShares = None\<rparr>\<rparr>),
      (''/Burstable'', \<lparr>usage = Some 500, written = \<lparr>Memory = None, CpuShares = None\<rparr>\<rparr>),
      (''/BestEffort'', \<lparr>usage = None, written = \<lparr>Memory = None, CpuShares = Some 2\<rparr>\<rparr>)]"

definition unreadableTiersWritten :: sampleState where
  "unreadableTiersWritten =
     [(''/'', \<lparr>usage = Some 510, written = \<lparr>Memory = None, CpuShares = None\<rparr>\<rparr>),
      (''/Burstable'', \<lparr>usage = Some 500, written = \<lparr>Memory = None, CpuShares = None\<rparr>\<rparr>),
      (''/BestEffort'', \<lparr>usage = None, written = \<lparr>Memory = Some 100, CpuShares = Some 2\<rparr>\<rparr>)]"

definition attemptedConfigs :: qosConfigs where
  "attemptedConfigs =
     [PodQOSBurstable \<mapsto>
        \<lparr>Name = ''/Burstable'', ResourceParameters = \<lparr>Memory = Some 100, CpuShares = Some 2\<rparr>\<rparr>,
      PodQOSBestEffort \<mapsto>
        \<lparr>Name = ''/BestEffort'', ResourceParameters = \<lparr>Memory = Some 1000, CpuShares = Some 2\<rparr>\<rparr>]"

definition pressureConfigs :: qosConfigs where
  "pressureConfigs =
     [PodQOSBurstable \<mapsto>
        \<lparr>Name = ''/Burstable'', ResourceParameters = \<lparr>Memory = Some 100, CpuShares = Some 2\<rparr>\<rparr>,
      PodQOSBestEffort \<mapsto>
        \<lparr>Name = ''/BestEffort'', ResourceParameters = \<lparr>Memory = Some 100, CpuShares = Some 2\<rparr>\<rparr>]"

text \<open>
  Plugins: one that accepts an authorizer, and one that has a setter but no
  \<^verbatim>\<open>Validate\<close> and so satisfies none of the three interfaces.
\<close>

definition authorizerPlugin :: pluginMethods where
  "authorizerPlugin =
     \<lparr>hasSetInternalClientSet = False, hasSetInformerFactory = False,
      hasSetAuthorizer = True, hasValidate = True\<rparr>"

definition setterOnlyPlugin :: pluginMethods where
  "setterOnlyPlugin =
     \<lparr>hasSetInternalClientSet = True, hasSetInformerFactory = False,
      hasSetAuthorizer = False, hasValidate = False\<rparr>"

section \<open>Arithmetic on \<^verbatim>\<open>int64\<close>\<close>

lemma sint_range64: "- (2 ^ 63) \<le> sint (a :: int64) \<and> sint a < 2 ^ 63"
  using sint_ge [of a] sint_lt [of a] by simp

lemma div_100_bounds:
  fixes k :: int
  assumes "0 \<le> k"
  shows "0 \<le> k div 100" and "k div 100 \<le> k"
proof -
  show "0 \<le> k div 100"
    using assms by (simp add: pos_imp_zdiv_nonneg_iff)
  have "k div 100 \<le> k div 1"
    using assms by (intro zdiv_mono2) simp_all
  then show "k div 100 \<le> k" by simp
qed

lemma sdiv_100_bounds:
  fixes k :: int
  shows "(0 \<le> k \<longrightarrow> 0 \<le> k sdiv 100 \<and> k sdiv 100 \<le> k)
       \<and> (k < 0 \<longrightarrow> k \<le> k sdiv 100 \<and> k sdiv 100 \<le> 0)"
proof (cases "0 \<le> k")
  case True
  then have "k sdiv 100 = k div 100"
    by (simp add: signed_divide_int_def sgn_if)
  with True div_100_bounds [of k] show ?thesis by simp
next
  case False
  then have "k sdiv 100 = - ((- k) div 100)"
    by (simp add: signed_divide_int_def sgn_if)
  with False div_100_bounds [of "- k"] show ?thesis by simp
qed

lemma sint_int64_quo_100: "sint (int64_quo a 100) = sint a sdiv 100"
proof -
  have r: "- (2 ^ 63) \<le> sint a" "sint a < 2 ^ 63"
    using sint_range64 [of a] by simp_all
  with sdiv_100_bounds [of "sint a"]
  have "- (2 ^ 63) \<le> sint a sdiv 100" "sint a sdiv 100 < 2 ^ 63"
    by linarith+
  then have "signed_take_bit 63 (sint a sdiv 100) = sint a sdiv 100"
    by (intro signed_take_bit_int_eq_self) simp_all
  then show ?thesis
    by (simp add: int64_quo_def sint_sbintrunc')
qed

lemma sint_mult_in_range:
  fixes a b :: int64
  assumes "- (2 ^ 63) \<le> sint a * sint b" "sint a * sint b < 2 ^ 63"
  shows "sint (a * b) = sint a * sint b"
  using assms by (simp add: sint_word_mult signed_take_bit_int_eq_self)

lemma sint_diff_in_range:
  fixes a b :: int64
  assumes "- (2 ^ 63) \<le> sint a - sint b" "sint a - sint b < 2 ^ 63"
  shows "sint (a - b) = sint a - sint b"
  using assms by (simp add: sint_word_diff signed_take_bit_int_eq_self)

lemma sdiv_100_nonneg: "0 \<le> (k::int) \<Longrightarrow> k sdiv 100 = k div 100"
  by (simp add: signed_divide_int_def sgn_if)

section \<open>Memory reservation\<close>

lemma sumMemoryRequests_determinable:
  assumes "memoryRequestsDeterminable pods"
  shows "\<exists>acc'. sumMemoryRequests pods acc = Inr acc'
           \<and> (\<forall>q. q \<noteq> PodQOSBestEffort \<longrightarrow>
                  lookup0 acc' q = lookup0 acc q + tierMemoryRequests q pods)"
  using assms
proof (induction pods arbitrary: acc)
  case Nil
  then show ?case by (simp add: tierMemoryRequests_def)
next
  case (Cons pod pods)
  from Cons.prems have rest: "memoryRequestsDeterminable pods"
    by (simp add: memoryRequestsDeterminable_def)
  show ?case
  proof (cases "GetPodQOS pod = PodQOSBestEffort")
    case True
    with Cons.IH [OF rest, of acc] show ?thesis
      by (auto simp: tierMemoryRequests_def)
  next
    case False
    with Cons.prems obtain req where req: "PodRequestsAndLimits pod = Inr req"
      by (auto simp: memoryRequestsDeterminable_def requestsDeterminable_def split: sum.splits)
    define acc1 where
      "acc1 = acc (GetPodQOS pod \<mapsto> lookup0 acc (GetPodQOS pod) + podMemoryRequest pod)"
    have step: "sumMemoryRequests (pod # pods) acc = sumMemoryRequests pods acc1"
      using False req
      by (simp add: acc1_def podMemoryRequest_def Let_def split: option.splits)
    from Cons.IH [OF rest, of acc1] obtain acc' where
      r: "sumMemoryRequests pods acc1 = Inr acc'"
      and s: "\<forall>q. q \<noteq> PodQOSBestEffort \<longrightarrow>
                 lookup0 acc' q = lookup0 acc1 q + tierMemoryRequests q pods"
      by blast
    have "lookup0 acc1 q + tierMemoryRequests q pods
            = lookup0 acc q + tierMemoryRequests q (pod # pods)" for q
      by (simp add: acc1_def lookup0_def tierMemoryRequests_def)
    with r s step show ?thesis by simp
  qed
qed

lemma sint_int64_quo_100_truncates:
  "sint (int64_quo a 100) = truncatedQuotient (sint a) 100"
  by (simp add: sint_int64_quo_100 truncatedQuotient_def signed_divide_int_def)

text \<open>
  Claim C1: when memory is in the reserved-resource map with percentage \<open>P\<close>, the
  requests of every active pod that is not BestEffort can be determined, and allocatable
  memory \<open>A\<close> is present and not zero, the calculator sets the Burstable limit to
  \<open>A - G * P / 100\<close> and the BestEffort limit to \<open>(A - G * P / 100) - B * P / 100\<close>,
  where \<open>G\<close> and \<open>B\<close> are the sums of the memory requests of the Guaranteed and of
  the Burstable pods. The arithmetic is that of \<^verbatim>\<open>int64\<close>, and each quotient is the
  product's value divided by 100 and truncated towards zero.
\<close>

theorem memory_reserve_limits:
  assumes reserved: "qosReserved m ResourceMemory = Some P"
    and pods: "memoryRequestsDeterminable (activePods m)"
    and alloc: "getNodeAllocatable m ResourceMemory = Some allocatableResource"
    and nonzero: "Value allocatableResource \<noteq> 0"
    and cb: "configs PodQOSBurstable = Some cb"
    and ce: "configs PodQOSBestEffort = Some ce"
    and A: "A = Value allocatableResource"
    and G: "G = tierMemoryRequests PodQOSGuaranteed (activePods m)"
    and B: "B = tierMemoryRequests PodQOSBurstable (activePods m)"
  shows "case reserveAll m configs of
           Inl err \<Rightarrow> False
         | Inr configs' \<Rightarrow>
             memoryLimit configs' PodQOSBurstable = Some (A - int64_quo (G * P) 100)
           \<and> memoryLimit configs' PodQOSBestEffort
                = Some ((A - int64_quo (G * P) 100) - int64_quo (B * P) 100)
           \<and> sint (int64_quo (G * P) 100) = truncatedQuotient (sint (G * P)) 100
           \<and> sint (int64_quo (B * P) 100) = truncatedQuotient (sint (B * P)) 100"
proof -
  from sumMemoryRequests_determinable [OF pods,
      of "[PodQOSGuaranteed \<mapsto> 0, PodQOSBurstable \<mapsto> 0]"]
  obtain acc' where
    r: "sumMemoryRequests (activePods m) [PodQOSGuaranteed \<mapsto> 0, PodQOSBurstable \<mapsto> 0] = Inr acc'"
    and s: "\<forall>q. q \<noteq> PodQOSBestEffort \<longrightarrow>
               lookup0 acc' q = lookup0 [PodQOSGuaranteed \<mapsto> 0, PodQOSBurstable \<mapsto> 0] q
                 + tierMemoryRequests q (activePods m)"
    by blast
  from s have g: "lookup0 acc' PodQOSGuaranteed = G" and b: "lookup0 acc' PodQOSBurstable = B"
    by (simp_all add: G B lookup0_def)
  show ?thesis
    using r g b alloc nonzero cb ce reserved
    by (simp add: reserveAll_def setMemoryReserve_def setMemory_def memoryLimit_def
          burstableLimit_def bestEffortLimit_def A Let_def sint_int64_quo_100_truncates)
qed

theorem memory_reserve_limits_witness:
  "case reserveAll scenarioB (freshQosConfigs scenarioB) of
     Inl err \<Rightarrow> False
   | Inr configs' \<Rightarrow>
       memoryLimit configs' PodQOSBurstable = Some 10200547328
     \<and> memoryLimit configs' PodQOSBestEffort = Some 10200547328"
proof -
  have 1: "qosReserved scenarioB ResourceMemory = Some 50"
    by (simp add: scenarioB_def)
  have 2: "memoryRequestsDeterminable (activePods scenarioB)"
    by (simp add: scenarioB_def memoryRequestsDeterminable_def requestsDeterminable_def)
  have 3: "getNodeAllocatable scenarioB ResourceMemory
             = Some \<lparr>Value = 10737418240, MilliValue = 10737418240000\<rparr>"
    by (simp add: scenarioB_def)
  have 4: "Value \<lparr>Value = 10737418240, MilliValue = 10737418240000\<rparr> \<noteq> (0 :: int64)"
    by simp
  have 5: "freshQosConfigs scenarioB PodQOSBurstable
             = Some \<lparr>Name = ''/Burstable'', ResourceParameters = \<lparr>Memory = None, CpuShares = None\<rparr>\<rparr>"
    by (simp add: freshQosConfigs_def scenarioB_def)
  have 6: "freshQosConfigs scenarioB PodQOSBestEffort
             = Some \<lparr>Name = ''/BestEffort'', ResourceParameters = \<lparr>Memory = None, CpuShares = None\<rparr>\<rparr>"
    by (simp add: freshQosConfigs_def scenarioB_def)
  have G: "tierMemoryRequests PodQOSGuaranteed (activePods scenarioB) = 1073741824"
    by (simp add: scenarioB_def tierMemoryRequests_def podMemoryRequest_def)
  have B: "tierMemoryRequests PodQOSBurstable (activePods scenarioB) = 0"
    by (simp add: scenarioB_def tierMemoryRequests_def podMemoryRequest_def)
  have q: "int64_quo 53687091200 100 = 536870912"
    by (simp add: int64_quo_def signed_divide_int_def)
  have q0: "int64_quo 0 100 = 0"
    by (simp add: int64_quo_def)
  from memory_reserve_limits [OF 1 2 3 4 5 6 refl refl refl]
  show ?thesis
    by (simp add: G B q q0 split: sum.splits)
qed

section \<open>The phase-2 adjustment of memory targets\<close>

lemmas sample_defs =
  sampleCgroupManager_def sampleRefuses_def sampleWrite_def sampleHelpers_def

lemma sameNames_lookup:
  "sameNames c c' \<Longrightarrow> map_option Name (c' k) = map_option Name (c k)"
  by (cases k) (simp_all add: sameNames_def)

lemma sameNames_update:
  "c k = Some config \<Longrightarrow> sameNames c (c (k \<mapsto> config\<lparr>ResourceParameters := r\<rparr>))"
  by (cases k) (simp_all add: sameNames_def)

lemma sameNames_refl: "sameNames c c"
  by (simp add: sameNames_def)

lemma sameNames_cases:
  assumes "sameNames c c'"
  obtains (absent) "c k = None" "c' k = None"
  | (present) config config' where "c k = Some config" "c' k = Some config'"
      "Name config' = Name config"
proof (cases "c k")
  case None
  with sameNames_lookup [OF assms, of k] have "c' k = None" by simp
  with None absent show ?thesis by blast
next
  case (Some config)
  with sameNames_lookup [OF assms, of k] obtain config' where
    "c' k = Some config'" "Name config' = Name config"
    by (cases "c' k") auto
  with Some present show ?thesis by blast
qed

lemma observedUsage_sameNames:
  "sameNames c c' \<Longrightarrow> observedUsage cm s ks c' q = observedUsage cm s ks c q"
proof (induction ks)
  case Nil
  then show ?case by simp
next
  case (Cons k ks)
  from Cons.prems show ?case
  proof (cases rule: sameNames_cases [where k = k])
    case absent
    with Cons show ?thesis by simp
  next
    case (present config config')
    with Cons show ?thesis by (simp split: sum.splits)
  qed
qed

lemma statsReadable_sameNames:
  assumes "sameNames c c'"
  shows "statsReadable cm s c' k = statsReadable cm s c k"
  using assms by (cases rule: sameNames_cases [where k = k]) (simp_all add: statsReadable_def)

lemma statsFailAt_sameNames:
  assumes "sameNames c c'"
  shows "statsFailAt cm s c' k = statsFailAt cm s c k"
  using assms by (cases rule: sameNames_cases [where k = k]) (simp_all add: statsFailAt_def)

lemma retry_Cons_read:
  "configs k = Some config \<Longrightarrow> GetResourceStats cm s (Name config) = Inr stats \<Longrightarrow>
     retrySetMemoryReserve cm s (k # ks) configs P
       = retrySetMemoryReserve cm s ks (adjusted configs k config (Usage (MemoryStats stats))) P"
  by (simp add: adjusted_def Let_def split: option.splits)

lemma retry_Cons_failed:
  "configs k = Some config \<Longrightarrow> GetResourceStats cm s (Name config) = Inl err \<Longrightarrow>
     retrySetMemoryReserve cm s (k # ks) configs P = configs"
  by simp

lemma retry_Cons_absent:
  "configs k = None \<Longrightarrow>
     retrySetMemoryReserve cm s (k # ks) configs P = retrySetMemoryReserve cm s ks configs P"
  by simp

lemma adjusted_sameNames: "configs k = Some config \<Longrightarrow> sameNames configs (adjusted configs k config u)"
  by (simp add: adjusted_def sameNames_update sameNames_refl split: option.splits)

lemma adjusted_other: "q \<noteq> k \<Longrightarrow> adjusted configs k config u q = configs q"
  by (simp add: adjusted_def split: option.splits)

lemma retry_untouched:
  "q \<notin> set ks \<Longrightarrow> retrySetMemoryReserve cm s ks configs P q = configs q"
proof (induction ks arbitrary: configs)
  case Nil
  then show ?case by simp
next
  case (Cons k ks)
  from Cons.prems have qk: "q \<noteq> k" and rest: "q \<notin> set ks" by auto
  show ?case
  proof (cases "configs k")
    case None
    with Cons.IH [OF rest] show ?thesis by (simp only: retry_Cons_absent)
  next
    case (Some config)
    show ?thesis
    proof (cases "GetResourceStats cm s (Name config)")
      case (Inl err)
      with Some show ?thesis by (simp only: retry_Cons_failed)
    next
      case (Inr stats)
      with Some Cons.IH [OF rest] qk show ?thesis
        by (simp add: retry_Cons_read adjusted_other del: retrySetMemoryReserve.simps)
    qed
  qed
qed

lemma retry_stable:
  assumes "configs q = Some c" "Memory (ResourceParameters c) = Some t"
    and "GetResourceStats cm s (Name c) = Inr st" "\<not> t <s Usage (MemoryStats st)"
  shows "retrySetMemoryReserve cm s ks configs P q = Some c"
  using assms(1)
proof (induction ks arbitrary: configs)
  case Nil
  then show ?case by simp
next
  case (Cons k ks)
  show ?case
  proof (cases "configs k")
    case None
    with Cons show ?thesis by (simp only: retry_Cons_absent)
  next
    case (Some config)
    show ?thesis
    proof (cases "GetResourceStats cm s (Name config)")
      case (Inl err)
      with Some Cons.prems show ?thesis by (simp only: retry_Cons_failed)
    next
      case (Inr stats)
      have "adjusted configs k config (Usage (MemoryStats stats)) q = Some c"
      proof (cases "k = q")
        case True
        with Some Cons.prems have "config = c" by simp
        with Inr assms True Cons.prems show ?thesis by (simp add: adjusted_def)
      next
        case False
        with Cons.prems show ?thesis by (simp add: adjusted_other)
      qed
      then have "retrySetMemoryReserve cm s ks
                   (adjusted configs k config (Usage (MemoryStats stats))) P q = Some c"
        by (rule Cons.IH)
      with Some Inr show ?thesis by (simp only: retry_Cons_read)
    qed
  qed
qed

lemma retry_memoryLimit:
  assumes "configs q = Some config" "Memory (ResourceParameters config) = Some target"
  shows "memoryLimit (retrySetMemoryReserve cm s ks configs P) q =
           (case observedUsage cm s ks configs q of
              None \<Rightarrow> Some target
            | Some u \<Rightarrow> Some (if target <s u then u else target))"
  using assms(1)
proof (induction ks arbitrary: configs)
  case Nil
  with assms(2) show ?case by (simp add: memoryLimit_def)
next
  case (Cons k ks)
  show ?case
  proof (cases "configs k")
    case None
    with Cons show ?thesis by (simp del: retrySetMemoryReserve.simps add: retry_Cons_absent)
  next
    case (Some ck)
    show ?thesis
    proof (cases "GetResourceStats cm s (Name ck)")
      case (Inl err)
      with Some Cons.prems assms(2) show ?thesis by (simp add: memoryLimit_def)
    next
      case (Inr stats)
      let ?u = "Usage (MemoryStats stats)"
      let ?configs' = "adjusted configs k ck ?u"
      have step: "retrySetMemoryReserve cm s (k # ks) configs P
                    = retrySetMemoryReserve cm s ks ?configs' P"
        using Some Inr by (rule retry_Cons_read)
      show ?thesis
      proof (cases "k = q")
        case False
        then have q': "?configs' q = Some config"
          using Cons.prems by (simp add: adjusted_other)
        have "sameNames configs ?configs'"
          using Some by (rule adjusted_sameNames)
        then have "observedUsage cm s ks ?configs' q = observedUsage cm s ks configs q"
          by (rule observedUsage_sameNames)
        moreover from q' have
          "memoryLimit (retrySetMemoryReserve cm s ks ?configs' P) q =
             (case observedUsage cm s ks ?configs' q of
                None \<Rightarrow> Some target
              | Some u \<Rightarrow> Some (if target <s u then u else target))"
          by (rule Cons.IH)
        ultimately show ?thesis
          using False Some Inr by (simp add: step del: retrySetMemoryReserve.simps)
      next
        case True
        with Some Cons.prems have ck: "ck = config" by simp
        have obs: "observedUsage cm s (k # ks) configs q = Some ?u"
          using True Some Inr by simp
        show ?thesis
        proof (cases "target <s ?u")
          case False
          with assms(2) ck have same: "?configs' = configs"
            by (simp add: adjusted_def)
          have "GetResourceStats cm s (Name config) = Inr stats"
            using Inr ck by simp
          with Cons.prems assms(2)
          have "retrySetMemoryReserve cm s ks configs P q = Some config"
            using False by (rule retry_stable)
          with False assms(2) show ?thesis
            by (simp only: step same obs) (simp add: memoryLimit_def)
        next
          case less: True
          let ?c' = "config\<lparr>ResourceParameters := (ResourceParameters config)\<lparr>Memory := Some ?u\<rparr>\<rparr>"
          from less assms(2) ck True have q': "?configs' q = Some ?c'"
            by (simp add: adjusted_def)
          have m': "Memory (ResourceParameters ?c') = Some ?u" by simp
          have n': "GetResourceStats cm s (Name ?c') = Inr stats"
            using Inr ck by simp
          have "\<not> ?u <s ?u" by simp
          with q' m' n'
          have "retrySetMemoryReserve cm s ks ?configs' P q = Some ?c'"
            by (rule retry_stable)
          with less show ?thesis
            by (simp only: step obs) (simp add: memoryLimit_def)
        qed
      qed
    qed
  qed
qed

text \<open>
  Claim C2: for every tier whose config enters phase 2 with a memory target, when the
  adjustment reads back the tier's memory usage from the cgroup driver: if the usage is
  less than or equal to the target, the target is left unchanged; if the usage is
  strictly above the target, the target is replaced by exactly that usage. Comparisons
  are signed.
\<close>

theorem retry_adjusts_target:
  assumes "configs q = Some config"
    and "Memory (ResourceParameters config) = Some target"
    and "observedUsage cm s ks configs q = Some u"
  shows "(u \<le>s target \<longrightarrow>
            memoryLimit (retrySetMemoryReserve cm s ks configs P) q = Some target)
       \<and> (target <s u \<longrightarrow>
            memoryLimit (retrySetMemoryReserve cm s ks configs P) q = Some u)"
proof -
  from assms(1,2)
  have "memoryLimit (retrySetMemoryReserve cm s ks configs P) q =
          (case observedUsage cm s ks configs q of
             None \<Rightarrow> Some target
           | Some u \<Rightarrow> Some (if target <s u then u else target))"
    by (rule retry_memoryLimit)
  with assms(3) show ?thesis
    by (auto simp: word_sle_eq word_sless_alt)
qed

theorem retry_adjusts_target_witness:
  "memoryLimit (retrySetMemoryReserve sampleCgroupManager pressuredTiers
                  [PodQOSBestEffort, PodQOSBurstable] attemptedConfigs 50) PodQOSBurstable
     = Some 500
   \<and> memoryLimit (retrySetMemoryReserve sampleCgroupManager pressuredTiers
                    [PodQOSBestEffort, PodQOSBurstable] attemptedConfigs 50) PodQOSBestEffort
     = Some 1000"
proof -
  have b: "attemptedConfigs PodQOSBurstable
             = Some \<lparr>Name = ''/Burstable'',
                     ResourceParameters = \<lparr>Memory = Some 100, CpuShares = Some 2\<rparr>\<rparr>"
    by (simp add: attemptedConfigs_def)
  have e: "attemptedConfigs PodQOSBestEffort
             = Some \<lparr>Name = ''/BestEffort'',
                     ResourceParameters = \<lparr>Memory = Some 1000, CpuShares = Some 2\<rparr>\<rparr>"
    by (simp add: attemptedConfigs_def)
  have ob: "observedUsage sampleCgroupManager pressuredTiers
              [PodQOSBestEffort, PodQOSBurstable] attemptedConfigs PodQOSBurstable = Some 500"
    by (simp add: b e sampleCgroupManager_def pressuredTiers_def)
  have oe: "observedUsage sampleCgroupManager pressuredTiers
              [PodQOSBestEffort, PodQOSBurstable] attemptedConfigs PodQOSBestEffort = Some 10"
    by (simp add: b e sampleCgroupManager_def pressuredTiers_def)
  from retry_adjusts_target [OF b _ ob, of 100 50] retry_adjusts_target [OF e _ oe, of 1000 50]
  show ?thesis by (simp add: word_sle_eq word_sless_alt)
qed

text \<open>
  The second scenario of the two-phase protocol, evaluated: the first update of
  Burstable is refused because the usage (500) is above the computed limit (100); the
  adjustment retargets Burstable to 500, the second update succeeds and the pass returns
  no error.
\<close>

lemma retry_succeeds_at_usage:
  "UpdateCgroups sampleHelpers pressureManager sampleCgroupManager
     [PodQOSBurstable, PodQOSBestEffort] [PodQOSBestEffort, PodQOSBurstable]
     [PodQOSBurstable, PodQOSBestEffort] pressuredTiers
   = (None,
      [(''/'', \<lparr>usage = Some 510, written = \<lparr>Memory = None, CpuShares = None\<rparr>\<rparr>),
       (''/Burstable'', \<lparr>usage = Some 500, written = \<lparr>Memory = Some 500, CpuShares = Some 2\<rparr>\<rparr>),
       (''/BestEffort'', \<lparr>usage = Some 10, written = \<lparr>Memory = Some 100, CpuShares = Some 2\<rparr>\<rparr>)])"
  by (simp add: UpdateCgroups_def retryAll_def setCPUCgroupConfig_def pressureManager_def scenarioB_def
        freshQosConfigs_def setCpuShares_def reserveAll_def setMemoryReserve_def setMemory_def
        burstableLimit_def bestEffortLimit_def lookup0_def rangeValues_def
        List.map_filter_simps sample_defs pressuredTiers_def
        int64_quo_def signed_divide_int_def word_sless_alt Let_def)

lemma retry_returns_at_failure:
  assumes "list_all (statsReadable cm s configs) pre" "statsFailAt cm s configs q"
  shows "retrySetMemoryReserve cm s (pre @ q # post) configs P
           = retrySetMemoryReserve cm s pre configs P"
  using assms
proof (induction pre arbitrary: configs)
  case Nil
  then obtain config err where "configs q = Some config"
    "GetResourceStats cm s (Name config) = Inl err"
    by (auto simp: statsFailAt_def split: option.splits sum.splits)
  then show ?case by simp
next
  case (Cons k pre)
  show ?case
  proof (cases "configs k")
    case None
    with Cons show ?thesis by simp
  next
    case (Some ck)
    with Cons.prems obtain stats where Inr: "GetResourceStats cm s (Name ck) = Inr stats"
      by (auto simp: statsReadable_def split: sum.splits)
    let ?configs' = "adjusted configs k ck (Usage (MemoryStats stats))"
    have sn: "sameNames configs ?configs'"
      using Some by (rule adjusted_sameNames)
    have "statsReadable cm s ?configs' = statsReadable cm s configs"
      by (rule ext) (rule statsReadable_sameNames [OF sn])
    with Cons.prems(1) have 1: "list_all (statsReadable cm s ?configs') pre"
      by simp
    have 2: "statsFailAt cm s ?configs' q"
      using Cons.prems(2) by (simp add: statsFailAt_sameNames [OF sn])
    from Cons.IH [OF 1 2] Some Inr show ?thesis
      by (simp add: retry_Cons_read del: retrySetMemoryReserve.simps)
  qed
qed

lemma UpdateCgroups_phase2:
  assumes "phase2Entry h m cm ks1 s0 = Some (configs, s)"
  shows "UpdateCgroups h m cm ks1 ks2 ks3 s0
           = updatePhase2 cm (rangeValues ks3 (retryAll m cm s ks2 configs)) s"
  using assms
  by (auto simp: UpdateCgroups_def phase2Entry_def split: sum.splits prod.splits if_splits)

lemma updatePhase2_error:
  "updatePhase2 cm configs s = (Some err, s') \<Longrightarrow>
     \<exists>config \<in> set configs. \<exists>s0. fst (Update cm s0 config) = Some err"
proof (induction configs arbitrary: s)
  case Nil
  then show ?case by simp
next
  case (Cons config rest)
  obtain r s1 where u: "Update cm s config = (r, s1)"
    by (cases "Update cm s config")
  show ?case
  proof (cases r)
    case None
    with Cons.prems u have "updatePhase2 cm rest s1 = (Some err, s')" by simp
    from Cons.IH [OF this] show ?thesis by auto
  next
    case (Some e)
    with Cons.prems u have "e = err" by simp
    with Some u have "fst (Update cm s config) = Some err" by simp
    then show ?thesis by auto
  qed
qed

text \<open>
  Claim C10: if, during the phase-2 adjustment, the read of the resource statistics
  fails at some tier, after successful reads at the tiers visited before it, the
  adjustment returns at once: its result is what the tiers visited before had made of
  the configs, so the failing tier and every tier not visited yet keep their phase-1
  configs. The adjustment returns no error; the pass goes on to apply the configs again,
  and its outcome is that of this second round of updates, in which every error is the
  error of an update.
\<close>

theorem stats_failure_keeps_targets:
  assumes order: "ks = pre @ q # post"
    and readable: "list_all (statsReadable cm s configs) pre"
    and fails: "statsFailAt cm s configs q"
  shows "retrySetMemoryReserve cm s ks configs P = retrySetMemoryReserve cm s pre configs P
       \<and> (\<forall>k. k \<notin> set pre \<longrightarrow> retrySetMemoryReserve cm s ks configs P k = configs k)
       \<and> (phase2Entry h m cm ks1 s0 = Some (configs, s) \<and> qosReserved m ResourceMemory = Some P
            \<longrightarrow> UpdateCgroups h m cm ks1 ks ks3 s0
                  = updatePhase2 cm
                      (rangeValues ks3 (retrySetMemoryReserve cm s pre configs P)) s)"
proof -
  have eq: "retrySetMemoryReserve cm s ks configs P = retrySetMemoryReserve cm s pre configs P"
    unfolding order by (rule retry_returns_at_failure [OF readable fails])
  have keep: "\<forall>k. k \<notin> set pre \<longrightarrow> retrySetMemoryReserve cm s ks configs P k = configs k"
    by (simp add: eq retry_untouched)
  have pass: "phase2Entry h m cm ks1 s0 = Some (configs, s) \<and> qosReserved m ResourceMemory = Some P
            \<longrightarrow> UpdateCgroups h m cm ks1 ks ks3 s0
                  = updatePhase2 cm
                      (rangeValues ks3 (retrySetMemoryReserve cm s pre configs P)) s"
    by (auto simp: UpdateCgroups_phase2 retryAll_def eq)
  from eq keep pass show ?thesis by blast
qed

lemma pressure_phase2Entry:
  "phase2Entry sampleHelpers pressureManager sampleCgroupManager
     [PodQOSBurstable, PodQOSBestEffort] unreadableTiers
   = Some (pressureConfigs, unreadableTiersWritten)"
  by (simp add: phase2Entry_def setCPUCgroupConfig_def pressureManager_def scenarioB_def
        freshQosConfigs_def setCpuShares_def reserveAll_def setMemoryReserve_def setMemory_def
        burstableLimit_def bestEffortLimit_def lookup0_def rangeValues_def
        List.map_filter_simps sample_defs unreadableTiers_def unreadableTiersWritten_def
        pressureConfigs_def int64_quo_def signed_divide_int_def word_sless_alt Let_def)

theorem stats_failure_keeps_targets_witness:
  "retrySetMemoryReserve sampleCgroupManager unreadableTiersWritten
       [PodQOSBestEffort, PodQOSBurstable] pressureConfigs 50 = pressureConfigs
   \<and> UpdateCgroups sampleHelpers pressureManager sampleCgroupManager
       [PodQOSBurstable, PodQOSBestEffort] [PodQOSBestEffort, PodQOSBurstable]
       [PodQOSBurstable, PodQOSBestEffort] unreadableTiers
     = (Some (ExternalError ''device or resource busy''), unreadableTiersWritten)"
proof -
  have order: "[PodQOSBestEffort, PodQOSBurstable] = [] @ PodQOSBestEffort # [PodQOSBurstable]"
    by simp
  have readable: "list_all (statsReadable sampleCgroupManager unreadableTiersWritten pressureConfigs) []"
    by simp
  have fails: "statsFailAt sampleCgroupManager unreadableTiersWritten pressureConfigs PodQOSBestEffort"
    by (simp add: statsFailAt_def pressureConfigs_def sampleCgroupManager_def
          unreadableTiersWritten_def)
  have reserved: "qosReserved pressureManager ResourceMemory = Some 50"
    by (simp add: pressureManager_def scenarioB_def)
  have again: "updatePhase2 sampleCgroupManager
                 (rangeValues [PodQOSBurstable, PodQOSBestEffort] pressureConfigs)
                 unreadableTiersWritten
               = (Some (ExternalError ''device or resource busy''), unreadableTiersWritten)"
    by (simp add: rangeValues_def List.map_filter_simps pressureConfigs_def sample_defs
          unreadableTiersWritten_def word_sless_alt)
  from stats_failure_keeps_targets [OF order readable fails,
         of 50 sampleHelpers pressureManager "[PodQOSBurstable, PodQOSBestEffort]"
            unreadableTiers "[PodQOSBurstable, PodQOSBestEffort]"]
  show ?thesis
    by (simp add: pressure_phase2Entry reserved again)
qed

section \<open>CPU shares\<close>

lemma sumBurstableCPURequest_determinable:
  "cpuRequestsDeterminable pods \<Longrightarrow>
     sumBurstableCPURequest pods acc = Inr (acc + burstableCPURequests pods)"
proof (induction pods arbitrary: acc)
  case Nil
  then show ?case by (simp add: burstableCPURequests_def)
next
  case (Cons pod pods)
  then show ?case
    by (auto simp: cpuRequestsDeterminable_def requestsDeterminable_def
          burstableCPURequests_def podCPURequest_def Let_def
          split: sum.splits option.splits)
qed

lemma firstBurstableError_Cons:
  "firstBurstableError (pod # pods) =
     (if GetPodQOS pod = PodQOSBurstable
      then (case PodRequestsAndLimits pod of
              Inl err \<Rightarrow> Some err
            | Inr req \<Rightarrow> firstBurstableError pods)
      else firstBurstableError pods)"
  by (simp add: firstBurstableError_def requestsDeterminable_def split: sum.splits)

lemma sumBurstableCPURequest_error:
  "firstBurstableError pods = Some err \<Longrightarrow> sumBurstableCPURequest pods acc = Inl err"
proof (induction pods arbitrary: acc)
  case Nil
  then show ?case by (simp add: firstBurstableError_def)
next
  case (Cons pod pods)
  show ?case
  proof (cases "GetPodQOS pod = PodQOSBurstable")
    case False
    with Cons show ?thesis by (simp add: firstBurstableError_Cons)
  next
    case True
    show ?thesis
    proof (cases "PodRequestsAndLimits pod")
      case (Inl e)
      with True Cons.prems show ?thesis by (simp add: firstBurstableError_Cons)
    next
      case (Inr req)
      with True Cons.prems have "firstBurstableError pods = Some err"
        by (simp add: firstBurstableError_Cons)
      with Cons.IH True Inr show ?thesis by (simp split: option.splits)
    qed
  qed
qed

text \<open>
  Claim C3, amended: for every population of active pods in which the requests of every
  Burstable pod can be determined, the CPU-share computation sets the BestEffort shares
  to \<^verbatim>\<open>MinShares\<close> and the Burstable shares to the signed maximum of \<^verbatim>\<open>MinShares\<close>
  and \<^verbatim>\<open>MilliCPUToShares(S)\<close>, where \<open>S\<close> is the \<^verbatim>\<open>int64\<close> sum of the CPU requests
  (milli-units) of the Burstable pods only.
\<close>

theorem cpu_shares_computed:
  assumes pods: "cpuRequestsDeterminable (activePods m)"
    and cb: "configs PodQOSBurstable = Some cb"
    and ce: "configs PodQOSBestEffort = Some ce"
  shows "case setCPUCgroupConfig h m configs of
           Inl err \<Rightarrow> False
         | Inr configs' \<Rightarrow>
             cpuShares configs' PodQOSBestEffort = Some (MinShares h)
           \<and> cpuShares configs' PodQOSBurstable
                = Some (int64_max (MinShares h)
                          (MilliCPUToShares h (burstableCPURequests (activePods m))))"
  using cb ce
  by (simp add: setCPUCgroupConfig_def sumBurstableCPURequest_determinable [OF pods]
        setCpuShares_def cpuShares_def int64_max_def Let_def word_sless_alt not_less)

theorem cpu_shares_computed_witness:
  "case setCPUCgroupConfig sampleHelpers cpuManager (freshQosConfigs cpuManager) of
     Inl err \<Rightarrow> False
   | Inr configs' \<Rightarrow>
       cpuShares configs' PodQOSBestEffort = Some 2
     \<and> cpuShares configs' PodQOSBurstable = Some 512"
proof -
  have 1: "cpuRequestsDeterminable (activePods cpuManager)"
    by (simp add: cpuManager_def cpuRequestsDeterminable_def requestsDeterminable_def)
  have 2: "freshQosConfigs cpuManager PodQOSBurstable
             = Some \<lparr>Name = ''/Burstable'', ResourceParameters = \<lparr>Memory = None, CpuShares = None\<rparr>\<rparr>"
    by (simp add: freshQosConfigs_def cpuManager_def scenarioB_def)
  have 3: "freshQosConfigs cpuManager PodQOSBestEffort
             = Some \<lparr>Name = ''/BestEffort'', ResourceParameters = \<lparr>Memory = None, CpuShares = None\<rparr>\<rparr>"
    by (simp add: freshQosConfigs_def cpuManager_def scenarioB_def)
  have S: "burstableCPURequests (activePods cpuManager) = 500"
    by (simp add: cpuManager_def burstableCPURequests_def podCPURequest_def)
  have c: "MilliCPUToShares sampleHelpers 500 = 512"
    by (simp add: sampleHelpers_def int64_quo_def signed_divide_int_def)
  have m: "MinShares sampleHelpers = 2"
    by (simp add: sampleHelpers_def)
  have x: "int64_max 2 512 = 512"
    by (simp add: int64_max_def)
  from cpu_shares_computed [OF 1 2 3, of sampleHelpers]
  show ?thesis
    by (simp add: S c m x split: sum.splits)
qed

text \<open>
  Claim C3, as stated for every population, fails when the requests of a Burstable pod
  cannot be determined: the computation returns the error and sets no shares at all.
\<close>

theorem cpu_shares_counterexample:
  "setCPUCgroupConfig sampleHelpers cpuFailingManager (freshQosConfigs cpuFailingManager)
     = Inl (ExternalError ''requests undeterminable'')"
  by (simp add: setCPUCgroupConfig_def cpuFailingManager_def scenarioB_def undeterminablePod_def)

section \<open>A failed CPU-share computation\<close>

text \<open>
  Claim C4, as stated, says that a failure in the CPU-share computation aborts that
  computation only and that memory reservation may still run in the same pass. In the
  source \<^verbatim>\<open>UpdateCgroups\<close> returns the error at once: on a manager with memory
  reservation configured, the pass ends with the error and has written nothing.
\<close>

theorem cpu_failure_counterexample:
  "qosReserved cpuFailingManager ResourceMemory = Some 50
   \<and> UpdateCgroups sampleHelpers cpuFailingManager sampleCgroupManager
     [PodQOSBurstable, PodQOSBestEffort] [PodQOSBurstable, PodQOSBestEffort]
     [PodQOSBurstable, PodQOSBestEffort] sampleTiers
   = (Some (ExternalError ''requests undeterminable''), sampleTiers)"
  by (simp add: UpdateCgroups_def setCPUCgroupConfig_def cpuFailingManager_def scenarioB_def
        undeterminablePod_def)

text \<open>
  Claim C4, amended: when the requests of some Burstable pod cannot be determined during
  the CPU-share computation, the whole pass is aborted. \<^verbatim>\<open>UpdateCgroups\<close> returns the
  error of the first such pod, before the memory reservation computation and before any
  write to the cgroup driver, whose state is unchanged.
\<close>

theorem cpu_failure_aborts_pass:
  assumes "firstBurstableError (activePods m) = Some err"
  shows "UpdateCgroups h m cm ks1 ks2 ks3 s = (Some err, s)"
  by (simp add: UpdateCgroups_def setCPUCgroupConfig_def sumBurstableCPURequest_error [OF assms])

theorem cpu_failure_aborts_pass_witness:
  "UpdateCgroups sampleHelpers cpuFailingManager sampleCgroupManager
     [PodQOSBestEffort, PodQOSBurstable] [PodQOSBestEffort, PodQOSBurstable]
     [PodQOSBestEffort, PodQOSBurstable] []
   = (Some (ExternalError ''requests undeterminable''), [])"
proof -
  have "firstBurstableError (activePods cpuFailingManager)
          = Some (ExternalError ''requests undeterminable'')"
    by (simp add: firstBurstableError_def cpuFailingManager_def scenarioB_def
          undeterminablePod_def requestsDeterminable_def)
  from cpu_failure_aborts_pass [OF this] show ?thesis .
qed

section \<open>Missing allocatable memory\<close>

lemma noMemoryTargets_lookup:
  "noMemoryTargets configs \<Longrightarrow> configs q = Some c \<Longrightarrow> Memory (ResourceParameters c) = None"
  by (cases q) (simp_all add: noMemoryTargets_def memoryLimit_def)

lemma retrySetMemoryReserve_noMemoryTargets:
  "noMemoryTargets configs \<Longrightarrow> retrySetMemoryReserve cm s ks configs P = configs"
proof (induction ks)
  case Nil
  then show ?case by simp
next
  case (Cons q ks)
  then show ?case
    by (auto simp: Let_def dest: noMemoryTargets_lookup split: option.splits sum.splits)
qed

lemma noMemoryTargets_fresh: "noMemoryTargets (freshQosConfigs m)"
  by (simp add: noMemoryTargets_def memoryLimit_def freshQosConfigs_def)

lemma setCpuShares_memoryLimit:
  assumes "setCpuShares k v configs = Inr configs'"
  shows "memoryLimit configs' q = memoryLimit configs q"
proof (cases "configs k")
  case None
  with assms show ?thesis by (simp add: setCpuShares_def)
next
  case (Some c)
  with assms have
    "configs' = configs (k \<mapsto> c\<lparr>ResourceParameters := (ResourceParameters c)\<lparr>CpuShares := Some v\<rparr>\<rparr>)"
    by (simp add: setCpuShares_def)
  with Some show ?thesis by (simp add: memoryLimit_def)
qed

lemma setCPUCgroupConfig_memoryLimit:
  assumes "setCPUCgroupConfig h m configs = Inr configs'"
  shows "memoryLimit configs' q = memoryLimit configs q"
proof -
  from assms obtain v1 c1 v2 where
    1: "setCpuShares PodQOSBestEffort v1 configs = Inr c1"
    and 2: "setCpuShares PodQOSBurstable v2 c1 = Inr configs'"
    by (auto simp: setCPUCgroupConfig_def Let_def split: sum.splits)
  show ?thesis
    by (simp add: setCpuShares_memoryLimit [OF 2] setCpuShares_memoryLimit [OF 1])
qed

lemma setCPUCgroupConfig_noMemoryTargets:
  "setCPUCgroupConfig h m configs = Inr configs' \<Longrightarrow> noMemoryTargets configs \<Longrightarrow>
     noMemoryTargets configs'"
  by (simp add: noMemoryTargets_def setCPUCgroupConfig_memoryLimit)

lemma setMemoryReserve_missing:
  assumes "allocatableMemoryMissing m"
  shows "setMemoryReserve m configs P = Inr configs"
proof (cases "sumMemoryRequests (activePods m) [PodQOSGuaranteed \<mapsto> 0, PodQOSBurstable \<mapsto> 0]")
  case (Inl err)
  then show ?thesis by (simp add: setMemoryReserve_def)
next
  case (Inr qosMemoryRequests)
  show ?thesis
  proof (cases "getNodeAllocatable m ResourceMemory")
    case None
    with Inr show ?thesis by (simp add: setMemoryReserve_def)
  next
    case (Some allocatableResource)
    with assms have "Value allocatableResource = 0"
      by (simp add: allocatableMemoryMissing_def)
    with Inr Some show ?thesis by (simp add: setMemoryReserve_def)
  qed
qed

text \<open>
  Claim C5: when allocatable memory is absent from the resource list or reported as
  zero, the memory reservation computation returns normally and leaves every config as
  it was; the configs of the pass keep a nil memory field for both tiers; and the pass
  has the outcome of a pass with no memory reservation configured, so the condition
  adds no error to it.
\<close>

theorem missing_allocatable_sets_no_limit:
  assumes missing: "allocatableMemoryMissing m"
  shows "setMemoryReserve m configs P = Inr configs
       \<and> (case setCPUCgroupConfig h m (freshQosConfigs m) of
            Inl err \<Rightarrow> True
          | Inr qosConfigs \<Rightarrow>
              (case reserveAll m qosConfigs of
                 Inl err \<Rightarrow> False
               | Inr qosConfigs' \<Rightarrow>
                   memoryLimit qosConfigs' PodQOSBurstable = None
                 \<and> memoryLimit qosConfigs' PodQOSBestEffort = None))
       \<and> UpdateCgroups h m cm ks1 ks2 ks3 s
           = UpdateCgroups h (m\<lparr>qosReserved := Map.empty\<rparr>) cm ks1 ks2 ks3 s"
proof (intro conjI)
  show "setMemoryReserve m configs P = Inr configs"
    by (rule setMemoryReserve_missing [OF missing])
next
  have r: "reserveAll m c = Inr c" for c
    by (simp add: reserveAll_def setMemoryReserve_missing [OF missing] split: option.splits)
  show "case setCPUCgroupConfig h m (freshQosConfigs m) of
          Inl err \<Rightarrow> True
        | Inr qosConfigs \<Rightarrow>
            (case reserveAll m qosConfigs of
               Inl err \<Rightarrow> False
             | Inr qosConfigs' \<Rightarrow>
                 memoryLimit qosConfigs' PodQOSBurstable = None
               \<and> memoryLimit qosConfigs' PodQOSBestEffort = None)"
  proof (cases "setCPUCgroupConfig h m (freshQosConfigs m)")
    case (Inl err)
    then show ?thesis by simp
  next
    case (Inr c)
    from setCPUCgroupConfig_noMemoryTargets [OF Inr noMemoryTargets_fresh]
    show ?thesis by (simp add: Inr r noMemoryTargets_def)
  qed
next
  let ?m' = "m\<lparr>qosReserved := Map.empty\<rparr>"
  have cpu: "setCPUCgroupConfig h ?m' (freshQosConfigs ?m') = setCPUCgroupConfig h m (freshQosConfigs m)"
    by (simp add: setCPUCgroupConfig_def freshQosConfigs_def)
  show "UpdateCgroups h m cm ks1 ks2 ks3 s = UpdateCgroups h ?m' cm ks1 ks2 ks3 s"
  proof (cases "setCPUCgroupConfig h m (freshQosConfigs m)")
    case (Inl err)
    then show ?thesis by (simp add: UpdateCgroups_def cpu)
  next
    case (Inr c)
    have none: "noMemoryTargets c"
      by (rule setCPUCgroupConfig_noMemoryTargets [OF Inr noMemoryTargets_fresh])
    have r: "reserveAll m c = Inr c"
      by (simp add: reserveAll_def setMemoryReserve_missing [OF missing] split: option.splits)
    have r': "reserveAll ?m' c = Inr c"
      by (simp add: reserveAll_def)
    have t: "retryAll m cm s1 ks2 c = c" for s1
      by (simp add: retryAll_def retrySetMemoryReserve_noMemoryTargets [OF none]
            split: option.splits)
    have t': "retryAll ?m' cm s1 ks2 c = c" for s1
      by (simp add: retryAll_def)
    show ?thesis
      by (simp add: UpdateCgroups_def cpu Inr r r' t t' split: prod.splits)
  qed
qed

lemma sample_pass_without_reservation:
  "UpdateCgroups sampleHelpers (standaloneManager\<lparr>qosReserved := Map.empty\<rparr>) sampleCgroupManager
     [PodQOSBurstable, PodQOSBestEffort] [PodQOSBurstable, PodQOSBestEffort]
     [PodQOSBurstable, PodQOSBestEffort] sampleTiers
   = (None,
      [(''/'', \<lparr>usage = Some 0, written = \<lparr>Memory = None, CpuShares = None\<rparr>\<rparr>),
       (''/Burstable'', \<lparr>usage = Some 0, written = \<lparr>Memory = None, CpuShares = Some 2\<rparr>\<rparr>),
       (''/BestEffort'', \<lparr>usage = Some 0, written = \<lparr>Memory = None, CpuShares = Some 2\<rparr>\<rparr>)])"
  by (simp add: UpdateCgroups_def setCPUCgroupConfig_def standaloneManager_def scenarioB_def
        freshQosConfigs_def setCpuShares_def sampleHelpers_def reserveAll_def rangeValues_def
        List.map_filter_simps sampleCgroupManager_def sampleTiers_def sampleRefuses_def
        sampleWrite_def int64_quo_def word_sless_alt)

theorem missing_allocatable_sets_no_limit_witness:
  "setMemoryReserve standaloneManager (freshQosConfigs standaloneManager) 50
     = Inr (freshQosConfigs standaloneManager)
   \<and> UpdateCgroups sampleHelpers standaloneManager sampleCgroupManager
       [PodQOSBurstable, PodQOSBestEffort] [PodQOSBurstable, PodQOSBestEffort]
       [PodQOSBurstable, PodQOSBestEffort] sampleTiers
     = (None,
        [(''/'', \<lparr>usage = Some 0, written = \<lparr>Memory = None, CpuShares = None\<rparr>\<rparr>),
         (''/Burstable'', \<lparr>usage = Some 0, written = \<lparr>Memory = None, CpuShares = Some 2\<rparr>\<rparr>),
         (''/BestEffort'', \<lparr>usage = Some 0, written = \<lparr>Memory = None, CpuShares = Some 2\<rparr>\<rparr>)])"
proof -
  have "allocatableMemoryMissing standaloneManager"
    by (simp add: allocatableMemoryMissing_def standaloneManager_def)
  from missing_allocatable_sets_no_limit [OF this,
      of "freshQosConfigs standaloneManager" 50 sampleHelpers sampleCgroupManager
         "[PodQOSBurstable, PodQOSBestEffort]" "[PodQOSBurstable, PodQOSBestEffort]"
         "[PodQOSBurstable, PodQOSBestEffort]" sampleTiers]
  show ?thesis
    by (simp add: sample_pass_without_reservation)
qed

section \<open>Bootstrap of the tier cgroups\<close>

lemma containerConfigFor_baseline:
  "containerConfigFor h rootContainer qosClass = baselineConfig h rootContainer qosClass"
  by (simp add: containerConfigFor_def baselineConfig_def Let_def)

lemma createContainers_step:
  "createContainers h cm rootContainer (qosClass # rest) s =
     (case ensureTier cm s (baselineConfig h rootContainer qosClass) of
        (Some err, s') \<Rightarrow>
          (Some (tierError cm s (baselineConfig h rootContainer qosClass) qosClass err), s')
      | (None, s') \<Rightarrow> createContainers h cm rootContainer rest s')"
  by (simp add: containerConfigFor_baseline ensureTier_def tierError_def Let_def
        split: prod.splits option.splits)

text \<open>
  Claim C6: \<^verbatim>\<open>Start\<close> returns an error when the root cgroup does not exist. Otherwise,
  for Burstable and then for BestEffort, it creates the child cgroup with the baseline
  config when its path does not exist and updates it to that same config when it does;
  a failure of the create or of the update ends \<^verbatim>\<open>Start\<close> with an error that wraps it;
  when both tiers succeed \<^verbatim>\<open>Start\<close> returns no error and stores the three paths. The
  BestEffort baseline pins the CPU shares to \<^verbatim>\<open>MinShares\<close>, the Burstable baseline sets
  nothing.
\<close>

theorem start_bootstrap:
  "Start h m cm allocatable pods s =
     (if \<not> Exists cm s (cgroupRoot m) then (Some (RootContainerMissing (cgroupRoot m)), m, s)
      else
        (case ensureTier cm s (baselineConfig h (cgroupRoot m) PodQOSBurstable) of
           (Some err, s1) \<Rightarrow>
             (Some (tierError cm s (baselineConfig h (cgroupRoot m) PodQOSBurstable)
                      PodQOSBurstable err), m, s1)
         | (None, s1) \<Rightarrow>
             (case ensureTier cm s1 (baselineConfig h (cgroupRoot m) PodQOSBestEffort) of
                (Some err, s2) \<Rightarrow>
                  (Some (tierError cm s1 (baselineConfig h (cgroupRoot m) PodQOSBestEffort)
                           PodQOSBestEffort err), m, s2)
              | (None, s2) \<Rightarrow> (None, startedManager h m allocatable pods, s2))))
   \<and> ResourceParameters (baselineConfig h (cgroupRoot m) PodQOSBestEffort)
       = \<lparr>Memory = None, CpuShares = Some (MinShares h)\<rparr>
   \<and> ResourceParameters (baselineConfig h (cgroupRoot m) PodQOSBurstable)
       = \<lparr>Memory = None, CpuShares = None\<rparr>"
proof (intro conjI)
  let ?root = "cgroupRoot m"
  let ?b = "baselineConfig h ?root PodQOSBurstable"
  let ?e = "baselineConfig h ?root PodQOSBestEffort"
  show "Start h m cm allocatable pods s =
     (if \<not> Exists cm s ?root then (Some (RootContainerMissing ?root), m, s)
      else
        (case ensureTier cm s ?b of
           (Some err, s1) \<Rightarrow> (Some (tierError cm s ?b PodQOSBurstable err), m, s1)
         | (None, s1) \<Rightarrow>
             (case ensureTier cm s1 ?e of
                (Some err, s2) \<Rightarrow> (Some (tierError cm s1 ?e PodQOSBestEffort err), m, s2)
              | (None, s2) \<Rightarrow> (None, startedManager h m allocatable pods, s2))))"
  proof (cases "Exists cm s ?root")
    case False
    then show ?thesis by (simp add: Start_def)
  next
    case True
    obtain r1 s1 where t1: "ensureTier cm s ?b = (r1, s1)"
      by (cases "ensureTier cm s ?b")
    show ?thesis
    proof (cases r1)
      case (Some err)
      with True t1 show ?thesis
        by (simp add: Start_def createContainers_step Let_def del: createContainers.simps(2))
    next
      case None
      obtain r2 s2 where t2: "ensureTier cm s1 ?e = (r2, s2)"
        by (cases "ensureTier cm s1 ?e")
      show ?thesis
      proof (cases r2)
        case (Some err)
        with True t1 None t2 show ?thesis
          by (simp add: Start_def createContainers_step Let_def del: createContainers.simps(2))
      next
        case n2: None
        with True t1 None t2 show ?thesis
          by (simp add: Start_def createContainers_step startedManager_def Let_def
                del: createContainers.simps(2))
      qed
    qed
  qed
qed (simp_all add: baselineConfig_def)

theorem start_bootstrap_witness:
  "Start sampleHelpers scenarioB sampleCgroupManager Map.empty [] onlyRoot
     = (None, startedManager sampleHelpers scenarioB Map.empty [],
        [(''/'', \<lparr>usage = Some 0, written = \<lparr>Memory = None, CpuShares = None\<rparr>\<rparr>),
         (''/Burstable'', \<lparr>usage = Some 0, written = \<lparr>Memory = None, CpuShares = None\<rparr>\<rparr>),
         (''/BestEffort'', \<lparr>usage = Some 0, written = \<lparr>Memory = None, CpuShares = Some 2\<rparr>\<rparr>)])
   \<and> Start sampleHelpers scenarioB sampleCgroupManager Map.empty [] []
     = (Some (RootContainerMissing ''/''), scenarioB, [])
   \<and> Start sampleHelpers scenarioB readOnlyCgroupManager Map.empty [] onlyRoot
     = (Some (FailedToCreate PodQOSBurstable (ExternalError ''read-only file system'')),
        scenarioB, onlyRoot)"
proof -
  have root: "cgroupRoot scenarioB = ''/''"
    by (simp add: scenarioB_def)
  have b: "baselineConfig sampleHelpers ''/'' PodQOSBurstable
             = \<lparr>Name = ''/Burstable'', ResourceParameters = \<lparr>Memory = None, CpuShares = None\<rparr>\<rparr>"
    by (simp add: baselineConfig_def sampleHelpers_def)
  have e: "baselineConfig sampleHelpers ''/'' PodQOSBestEffort
             = \<lparr>Name = ''/BestEffort'', ResourceParameters = \<lparr>Memory = None, CpuShares = Some 2\<rparr>\<rparr>"
    by (simp add: baselineConfig_def sampleHelpers_def)
  have 1: "Start sampleHelpers scenarioB sampleCgroupManager Map.empty [] onlyRoot
     = (None, startedManager sampleHelpers scenarioB Map.empty [],
        [(''/'', \<lparr>usage = Some 0, written = \<lparr>Memory = None, CpuShares = None\<rparr>\<rparr>),
         (''/Burstable'', \<lparr>usage = Some 0, written = \<lparr>Memory = None, CpuShares = None\<rparr>\<rparr>),
         (''/BestEffort'', \<lparr>usage = Some 0, written = \<lparr>Memory = None, CpuShares = Some 2\<rparr>\<rparr>)])"
    using start_bootstrap [of sampleHelpers scenarioB sampleCgroupManager Map.empty "[]" onlyRoot]
    by (simp add: root b e ensureTier_def sampleCgroupManager_def onlyRoot_def)
  have 2: "Start sampleHelpers scenarioB sampleCgroupManager Map.empty [] []
     = (Some (RootContainerMissing ''/''), scenarioB, [])"
    using start_bootstrap [of sampleHelpers scenarioB sampleCgroupManager Map.empty "[]" "[]"]
    by (simp add: root sampleCgroupManager_def)
  have 3: "Start sampleHelpers scenarioB readOnlyCgroupManager Map.empty [] onlyRoot
     = (Some (FailedToCreate PodQOSBurstable (ExternalError ''read-only file system'')),
        scenarioB, onlyRoot)"
    using start_bootstrap [of sampleHelpers scenarioB readOnlyCgroupManager Map.empty "[]" onlyRoot]
    by (simp add: root b ensureTier_def tierError_def readOnlyCgroupManager_def
          sampleCgroupManager_def onlyRoot_def)
  from 1 2 3 show ?thesis by simp
qed

section \<open>Ordering of the memory limits\<close>

text \<open>
  Claim C7, as stated: for every allocatable \<open>A\<close>, sums \<open>G \<ge> 0\<close> and \<open>B \<ge> 0\<close> and
  percentage \<open>P\<close> in \<open>[0, 100]\<close>, BestEffort limit \<open>\<le>\<close> Burstable limit \<open>\<le> A\<close>.
  On \<^verbatim>\<open>int64\<close> this fails when \<open>G * P\<close> wraps around: with \<open>G = 2 ^ 62\<close> and \<open>P = 3\<close>
  the product reads as \<open>- (2 ^ 62)\<close>, its quotient by 100 is negative, and the Burstable
  limit comes out above \<open>A = 1000\<close>.
\<close>

theorem memory_limits_order_counterexample:
  "(0::int64) \<le>s 4611686018427387904 \<and> (0::int64) \<le>s 0 \<and> (0::int64) \<le>s 3 \<and> (3::int64) \<le>s 100 \<and>
    \<not> (burstableLimit 1000 4611686018427387904 3 \<le>s 1000)"
  by (simp add: burstableLimit_def int64_quo_def signed_divide_int_def word_sle_eq)

text \<open>
  Claim C7, amended: for \<open>G \<ge> 0\<close>, \<open>B \<ge> 0\<close> and \<open>P\<close> in \<open>[0, 100]\<close>, when the
  products \<open>G * P\<close> and \<open>B * P\<close> fit in \<^verbatim>\<open>int64\<close> and the two subtractions do not fall
  below the least \<^verbatim>\<open>int64\<close>, BestEffort limit \<open>\<le>\<close> Burstable limit \<open>\<le> A\<close> in the
  signed order.
\<close>

theorem memory_limits_ordered:
  fixes A G B P :: int64
  assumes G: "0 \<le>s G" and B: "0 \<le>s B" and P0: "0 \<le>s P" and P100: "P \<le>s 100"
    and GP: "sint G * sint P < 2 ^ 63" and BP: "sint B * sint P < 2 ^ 63"
    and low: "- (2 ^ 63) \<le> sint A - (sint G * sint P) div 100 - (sint B * sint P) div 100"
  shows "bestEffortLimit (burstableLimit A G P) B P \<le>s burstableLimit A G P
       \<and> burstableLimit A G P \<le>s A"
proof -
  have g0: "0 \<le> sint G" and b0: "0 \<le> sint B" and p0: "0 \<le> sint P"
    using G B P0 by (simp_all add: word_sle_eq)
  have gp0: "0 \<le> sint G * sint P" and bp0: "0 \<le> sint B * sint P"
    using g0 b0 p0 by simp_all
  have sgp: "sint (G * P) = sint G * sint P"
    using gp0 GP by (intro sint_mult_in_range) linarith+
  have sbp: "sint (B * P) = sint B * sint P"
    using bp0 BP by (intro sint_mult_in_range) linarith+
  define g where "g = (sint G * sint P) div 100"
  define b where "b = (sint B * sint P) div 100"
  have gq: "sint (int64_quo (G * P) 100) = g"
    using gp0 by (simp add: sint_int64_quo_100 sgp sdiv_100_nonneg g_def)
  have bq: "sint (int64_quo (B * P) 100) = b"
    using bp0 by (simp add: sint_int64_quo_100 sbp sdiv_100_nonneg b_def)
  have gn: "0 \<le> g" and bn: "0 \<le> b"
    using gp0 bp0 by (simp_all add: g_def b_def pos_imp_zdiv_nonneg_iff)
  have rA: "- (2 ^ 63) \<le> sint A" "sint A < 2 ^ 63"
    using sint_range64 [of A] by simp_all
  have low': "- (2 ^ 63) \<le> sint A - g - b"
    using low by (simp add: g_def b_def)
  have bu: "sint (burstableLimit A G P) = sint A - g"
    unfolding burstableLimit_def
    using gn bn low' rA gq by (subst sint_diff_in_range) simp_all
  have be: "sint (bestEffortLimit (burstableLimit A G P) B P) = sint A - g - b"
    unfolding bestEffortLimit_def
    using gn bn low' rA bq bu by (subst sint_diff_in_range) simp_all
  show ?thesis
    using bu be gn bn by (simp add: word_sle_eq)
qed

theorem memory_limits_ordered_witness:
  "bestEffortLimit (burstableLimit 10737418240 1073741824 50) 0 50
      \<le>s burstableLimit 10737418240 1073741824 50
   \<and> burstableLimit 10737418240 1073741824 50 \<le>s (10737418240 :: int64)"
  using memory_limits_ordered [of 1073741824 0 50 10737418240]
  by (simp add: word_sle_eq)

section \<open>Plugin initialization\<close>

text \<open>
  Claim C9: for every plugin and each of the three capabilities (internal client set,
  informer factory, authorizer), \<^verbatim>\<open>Initialize\<close> calls the setter if and only if the
  plugin satisfies the interface, and the value passed is the one given to
  \<^verbatim>\<open>NewPluginInitializer\<close>; there are at most three calls, and a plugin that satisfies
  none of the interfaces receives no call.
\<close>

theorem initialize_dispatch:
  "(SetInternalClientSet c \<in> set (Initialize (NewPluginInitializer ic sharedInformers az) plugin)
      \<longleftrightarrow> WantsInternalClientSet plugin \<and> c = ic)
   \<and> (SetInformerFactory f \<in> set (Initialize (NewPluginInitializer ic sharedInformers az) plugin)
      \<longleftrightarrow> WantsInformerFactory plugin \<and> f = sharedInformers)
   \<and> (SetAuthorizer a \<in> set (Initialize (NewPluginInitializer ic sharedInformers az) plugin)
      \<longleftrightarrow> WantsAuthorizer plugin \<and> a = az)
   \<and> length (Initialize (NewPluginInitializer ic sharedInformers az) plugin) \<le> 3
   \<and> (\<not> WantsInternalClientSet plugin \<and> \<not> WantsInformerFactory plugin
        \<and> \<not> WantsAuthorizer plugin
      \<longrightarrow> Initialize (NewPluginInitializer ic sharedInformers az) plugin = [])"
  by (simp add: Initialize_def NewPluginInitializer_def)

theorem initialize_dispatch_witness:
  "SetAuthorizer ''authz'' \<in> set (Initialize (NewPluginInitializer ''client'' ''informers'' ''authz'') authorizerPlugin)
   \<and> SetInternalClientSet ''client'' \<notin> set (Initialize (NewPluginInitializer ''client'' ''informers'' ''authz'') authorizerPlugin)
   \<and> Initialize (NewPluginInitializer ''client'' ''informers'' ''authz'') setterOnlyPlugin = []"
proof -
  have a: "WantsAuthorizer authorizerPlugin" "\<not> WantsInternalClientSet authorizerPlugin"
    by (simp_all add: WantsAuthorizer_def WantsInternalClientSet_def authorizerPlugin_def)
  have p: "\<not> WantsInternalClientSet setterOnlyPlugin \<and> \<not> WantsInformerFactory setterOnlyPlugin
            \<and> \<not> WantsAuthorizer setterOnlyPlugin"
    by (simp add: WantsAuthorizer_def WantsInformerFactory_def WantsInternalClientSet_def
          setterOnlyPlugin_def)
  from initialize_dispatch [of "''client''" "''client''" "''informers''" "''authz''"
         authorizerPlugin "''informers''" "''authz''"]
       initialize_dispatch [of "''client''" "''client''" "''informers''" "''authz''"
         setterOnlyPlugin "''informers''" "''authz''"]
       a p
  show ?thesis by simp
qed

end
